theory Spec2Isabelle
  imports Main "HOL-Library.Word"
begin

unbundle bit_operations_syntax

section \<open>The zipfs adapter of blink (src/blink/zipfs.c)\<close>

text \<open>
  The read-only VFS adapter that exposes a host directory as a mounted tree. Every C
  function of \<^verbatim>\<open>zipfs.c\<close> is a HOL function of the same name. What the C reads and
  writes beyond its arguments is explicit:
  \<^item> \<^verbatim>\<open>errno\<close> and the host calls issued so far are fields of a \<open>world\<close> that every
    function takes and returns;
  \<^item> the answers of the host (stat, open, read, ..., and whether an allocation succeeds)
    are the fields of a \<open>host\<close>, each a function of the calls issued before it, so that
    the host may be any deterministic system;
  \<^item> a pointer that may be \<^verbatim>\<open>NULL\<close> is an \<open>option\<close>; a node that a function updates
    through its pointer is returned updated.
\<close>

subsection \<open>Machine types, errno, stat\<close>

type_synonym u64 = "64 word"
type_synonym u32 = "32 word"
type_synonym byte = "8 word"

text \<open>The error numbers \<^verbatim>\<open>zipfs.c\<close> raises itself, and the ones a host call may report.\<close>

datatype errno = EFAULT | ENOTDIR | EACCES | ENOMEM | EBADF | EINVAL | ENOENT | EIO
  | EHOST nat

text \<open>\<^verbatim>\<open>struct stat\<close>: the fields the adapter reads or overwrites, and the size as one of
  those it passes through.\<close>

record stat =
  st_dev :: u64
  st_ino :: u64
  st_mode :: u32
  st_size :: u64

text \<open>The host calls of \<^verbatim>\<open>zipfs.c\<close>, with their arguments (a descriptor is an \<open>int\<close>, a
  directory stream a handle, an \<^verbatim>\<open>iovec\<close> array the lengths of its buffers).\<close>

datatype hostcall =
    Stat string
  | Lstat string
  | Fstat int
  | Open string u32
  | Close int
  | Read int nat
  | Readv int "nat list" int
  | Pread int nat int
  | Lseek int int int
  | Access string u32
  | Opendir string
  | Readdir nat
  | Rewinddir nat
  | Seekdir nat int
  | Telldir nat
  | Closedir nat

record world =
  w_errno :: "errno option"
  w_trace :: "hostcall list"
  w_nalloc :: nat

text \<open>\<^verbatim>\<open>struct dirent\<close>: the entry's inode and name.\<close>

record dirent =
  d_ino :: u64
  d_name :: string

text \<open>
  The platform and the host. \<open>char_signed\<close> and \<open>big_endian\<close> are the two
  implementation-defined choices the inode hash depends on (whether \<^verbatim>\<open>char\<close> is signed,
  and the byte order of \<^verbatim>\<open>ino_t\<close>, taken as 64 bits wide). \<open>heap_garbage_null\<close> says
  whether a pointer field of freshly allocated, uninitialised memory reads as \<^verbatim>\<open>NULL\<close>.
  \<open>alloc_ok k\<close> says whether the \<open>k\<close>-th allocation request succeeds.
\<close>

record host =
  char_signed :: bool
  big_endian :: bool
  heap_garbage_null :: bool
  alloc_ok :: "nat \<Rightarrow> bool"
  host_stat :: "hostcall list \<Rightarrow> string \<Rightarrow> errno + stat"
  host_lstat :: "hostcall list \<Rightarrow> string \<Rightarrow> errno + stat"
  host_fstat :: "hostcall list \<Rightarrow> int \<Rightarrow> errno + stat"
  host_open :: "hostcall list \<Rightarrow> string \<Rightarrow> u32 \<Rightarrow> errno + int"
  host_close :: "hostcall list \<Rightarrow> int \<Rightarrow> errno + unit"
  host_read :: "hostcall list \<Rightarrow> int \<Rightarrow> nat \<Rightarrow> errno + byte list"
  host_readv :: "hostcall list \<Rightarrow> int \<Rightarrow> nat list \<Rightarrow> int \<Rightarrow> errno + byte list"
  host_pread :: "hostcall list \<Rightarrow> int \<Rightarrow> nat \<Rightarrow> int \<Rightarrow> errno + byte list"
  host_lseek :: "hostcall list \<Rightarrow> int \<Rightarrow> int \<Rightarrow> int \<Rightarrow> errno + int"
  host_access :: "hostcall list \<Rightarrow> string \<Rightarrow> u32 \<Rightarrow> errno + unit"
  host_opendir :: "hostcall list \<Rightarrow> string \<Rightarrow> errno + nat"
  host_readdir :: "hostcall list \<Rightarrow> nat \<Rightarrow> errno + dirent option"
  host_telldir :: "hostcall list \<Rightarrow> nat \<Rightarrow> errno + int"
  host_closedir :: "hostcall list \<Rightarrow> nat \<Rightarrow> errno + unit"

text \<open>
  Modelled from the spec: the helpers \<^verbatim>\<open>efault()\<close>, \<^verbatim>\<open>enotdir()\<close>, \<^verbatim>\<open>eacces()\<close>,
  \<^verbatim>\<open>enomem()\<close>, \<^verbatim>\<open>ebadf()\<close> and \<^verbatim>\<open>einval()\<close> of \<^verbatim>\<open>blink/errno.h\<close> (not among the
  sources) report one error of the taxonomy of section 7 each, as a failing call does:
  they set \<^verbatim>\<open>errno\<close> and return -1.
\<close>

definition raise :: "errno \<Rightarrow> world \<Rightarrow> int \<times> world" where
  "raise e w = (-1, w\<lparr>w_errno := Some e\<rparr>)"

definition efault :: "world \<Rightarrow> int \<times> world" where "efault = raise EFAULT"
definition enotdir :: "world \<Rightarrow> int \<times> world" where "enotdir = raise ENOTDIR"
definition eacces :: "world \<Rightarrow> int \<times> world" where "eacces = raise EACCES"
definition enomem :: "world \<Rightarrow> int \<times> world" where "enomem = raise ENOMEM"
definition ebadf :: "world \<Rightarrow> int \<times> world" where "ebadf = raise EBADF"
definition einval :: "world \<Rightarrow> int \<times> world" where "einval = raise EINVAL"

text \<open>A host call appends itself to the trace; a failing one sets \<^verbatim>\<open>errno\<close>.\<close>

definition issue :: "hostcall \<Rightarrow> world \<Rightarrow> world" where
  "issue c w = w\<lparr>w_trace := w_trace w @ [c]\<rparr>"

definition host_fail :: "hostcall \<Rightarrow> errno \<Rightarrow> world \<Rightarrow> world" where
  "host_fail c e w = (issue c w)\<lparr>w_errno := Some e\<rparr>"

text \<open>\<^verbatim>\<open>malloc\<close> (and \<^verbatim>\<open>strdup\<close>): the request is counted; a failing one sets
  \<^verbatim>\<open>ENOMEM\<close>.\<close>

definition malloc :: "host \<Rightarrow> world \<Rightarrow> bool \<times> world" where
  "malloc h w =
     (if alloc_ok h (w_nalloc w) then (True, w\<lparr>w_nalloc := Suc (w_nalloc w)\<rparr>)
      else (False, w\<lparr>w_nalloc := Suc (w_nalloc w), w_errno := Some ENOMEM\<rparr>))"

subsection \<open>Mode bits and flags (the host's headers, Linux values)\<close>

definition S_IFMT :: u32 where "S_IFMT = 0xF000"
definition S_IFDIR :: u32 where "S_IFDIR = 0x4000"
definition S_IFREG :: u32 where "S_IFREG = 0x8000"

definition S_ISDIR :: "u32 \<Rightarrow> bool" where
  "S_ISDIR m = (m AND S_IFMT = S_IFDIR)"

definition S_ISREG :: "u32 \<Rightarrow> bool" where
  "S_ISREG m = (m AND S_IFMT = S_IFREG)"

definition O_ACCMODE :: u32 where "O_ACCMODE = 3"
definition O_RDONLY :: u32 where "O_RDONLY = 0"
definition O_WRONLY :: u32 where "O_WRONLY = 1"
definition O_RDWR :: u32 where "O_RDWR = 2"
definition O_CREAT :: u32 where "O_CREAT = 0x40"
definition O_TRUNC :: u32 where "O_TRUNC = 0x200"
definition O_APPEND :: u32 where "O_APPEND = 0x400"
definition W_OK :: u32 where "W_OK = 2"
definition AT_SYMLINK_NOFOLLOW :: u32 where "AT_SYMLINK_NOFOLLOW = 0x100"

subsection \<open>The inode hash\<close>

text \<open>
  \<^verbatim>\<open>*data++\<close> is a \<^verbatim>\<open>char\<close>; added to a \<^verbatim>\<open>u64\<close> it is converted to 64 bits, with
  sign extension where \<^verbatim>\<open>char\<close> is signed.
\<close>

definition char_to_u64 :: "host \<Rightarrow> byte \<Rightarrow> u64" where
  "char_to_u64 h c = (if char_signed h then scast c else ucast c)"

text \<open>The loop \<^verbatim>\<open>while (size--) hash = *data++ + (hash << 6) + (hash << 16) - hash\<close>;
  the buffer and its size are one list.\<close>

primrec ZipfsHash_loop :: "host \<Rightarrow> u64 \<Rightarrow> byte list \<Rightarrow> u64" where
  "ZipfsHash_loop h hash [] = hash"
| "ZipfsHash_loop h hash (c # data) =
     ZipfsHash_loop h (char_to_u64 h c + push_bit 6 hash + push_bit 16 hash - hash) data"

definition ZipfsHash :: "host \<Rightarrow> u64 \<Rightarrow> byte list option \<Rightarrow> world \<Rightarrow> u64 \<times> world" where
  "ZipfsHash h parent data w =
     (case data of
        None \<Rightarrow> (0, snd (efault w))
      | Some bytes \<Rightarrow> (ZipfsHash_loop h parent bytes, w))"

text \<open>The object representation of an \<^verbatim>\<open>ino_t\<close>: its eight bytes in the host's order,
  as \<^verbatim>\<open>(const char *)&st.st_ino\<close> with \<^verbatim>\<open>sizeof(st.st_ino)\<close> reads them.\<close>

definition le_bytes :: "u64 \<Rightarrow> byte list" where
  "le_bytes x = map (\<lambda>i. ucast (drop_bit (8 * i) x)) [0..<8]"

definition ino_bytes :: "host \<Rightarrow> u64 \<Rightarrow> byte list" where
  "ino_bytes h x = (if big_endian h then rev (le_bytes x) else le_bytes x)"

text \<open>The spec's words for the hash (section 4.3): \<open>h = seed; for each byte b:
  h = b + (h<<6) + (h<<16) - h\<close>, the byte \<open>b\<close> entering with its value, 0 to 255.
  \<open>spec_synth_step v\<close> is one step for the value \<open>v\<close>.\<close>

definition spec_synth_step :: "u64 \<Rightarrow> u64 \<Rightarrow> u64" where
  "spec_synth_step v x = v + push_bit 6 x + push_bit 16 x - x"

definition spec_synth :: "u64 \<Rightarrow> byte list \<Rightarrow> u64" where
  "spec_synth seed bs = fold (\<lambda>b. spec_synth_step (ucast b)) bs seed"

subsection \<open>Host calls\<close>

text \<open>Each wrapper asks the host, records the call, and on failure sets \<^verbatim>\<open>errno\<close>;
  \<open>None\<close> is the C call returning -1 (or \<^verbatim>\<open>NULL\<close>).\<close>

definition sys_stat :: "host \<Rightarrow> string \<Rightarrow> world \<Rightarrow> stat option \<times> world" where
  "sys_stat h path w =
     (case host_stat h (w_trace w) path of
        Inl e \<Rightarrow> (None, host_fail (Stat path) e w)
      | Inr st \<Rightarrow> (Some st, issue (Stat path) w))"

definition sys_lstat :: "host \<Rightarrow> string \<Rightarrow> world \<Rightarrow> stat option \<times> world" where
  "sys_lstat h path w =
     (case host_lstat h (w_trace w) path of
        Inl e \<Rightarrow> (None, host_fail (Lstat path) e w)
      | Inr st \<Rightarrow> (Some st, issue (Lstat path) w))"

definition sys_fstat :: "host \<Rightarrow> int \<Rightarrow> world \<Rightarrow> stat option \<times> world" where
  "sys_fstat h fd w =
     (case host_fstat h (w_trace w) fd of
        Inl e \<Rightarrow> (None, host_fail (Fstat fd) e w)
      | Inr st \<Rightarrow> (Some st, issue (Fstat fd) w))"

definition sys_open :: "host \<Rightarrow> string \<Rightarrow> u32 \<Rightarrow> world \<Rightarrow> int \<times> world" where
  "sys_open h path fl w =
     (case host_open h (w_trace w) path fl of
        Inl e \<Rightarrow> (-1, host_fail (Open path fl) e w)
      | Inr fd \<Rightarrow> (fd, issue (Open path fl) w))"

definition sys_close :: "host \<Rightarrow> int \<Rightarrow> world \<Rightarrow> int \<times> world" where
  "sys_close h fd w =
     (case host_close h (w_trace w) fd of
        Inl e \<Rightarrow> (-1, host_fail (Close fd) e w)
      | Inr _ \<Rightarrow> (0, issue (Close fd) w))"

definition sys_read :: "host \<Rightarrow> int \<Rightarrow> nat \<Rightarrow> world \<Rightarrow> int \<times> byte list \<times> world" where
  "sys_read h fd count w =
     (case host_read h (w_trace w) fd count of
        Inl e \<Rightarrow> (-1, [], host_fail (Read fd count) e w)
      | Inr bytes \<Rightarrow> (int (length bytes), bytes, issue (Read fd count) w))"

definition sys_readv ::
  "host \<Rightarrow> int \<Rightarrow> nat list \<Rightarrow> int \<Rightarrow> world \<Rightarrow> int \<times> byte list \<times> world" where
  "sys_readv h fd iov iovcnt w =
     (case host_readv h (w_trace w) fd iov iovcnt of
        Inl e \<Rightarrow> (-1, [], host_fail (Readv fd iov iovcnt) e w)
      | Inr bytes \<Rightarrow> (int (length bytes), bytes, issue (Readv fd iov iovcnt) w))"

definition sys_pread :: "host \<Rightarrow> int \<Rightarrow> nat \<Rightarrow> int \<Rightarrow> world \<Rightarrow> int \<times> byte list \<times> world" where
  "sys_pread h fd count offset w =
     (case host_pread h (w_trace w) fd count offset of
        Inl e \<Rightarrow> (-1, [], host_fail (Pread fd count offset) e w)
      | Inr bytes \<Rightarrow> (int (length bytes), bytes, issue (Pread fd count offset) w))"

definition sys_lseek :: "host \<Rightarrow> int \<Rightarrow> int \<Rightarrow> int \<Rightarrow> world \<Rightarrow> int \<times> world" where
  "sys_lseek h fd offset whence w =
     (case host_lseek h (w_trace w) fd offset whence of
        Inl e \<Rightarrow> (-1, host_fail (Lseek fd offset whence) e w)
      | Inr pos \<Rightarrow> (pos, issue (Lseek fd offset whence) w))"

definition sys_access :: "host \<Rightarrow> string \<Rightarrow> u32 \<Rightarrow> world \<Rightarrow> int \<times> world" where
  "sys_access h path amode w =
     (case host_access h (w_trace w) path amode of
        Inl e \<Rightarrow> (-1, host_fail (Access path amode) e w)
      | Inr _ \<Rightarrow> (0, issue (Access path amode) w))"

definition sys_opendir :: "host \<Rightarrow> string \<Rightarrow> world \<Rightarrow> nat option \<times> world" where
  "sys_opendir h path w =
     (case host_opendir h (w_trace w) path of
        Inl e \<Rightarrow> (None, host_fail (Opendir path) e w)
      | Inr d \<Rightarrow> (Some d, issue (Opendir path) w))"

text \<open>\<^verbatim>\<open>readdir\<close> returns \<^verbatim>\<open>NULL\<close> at the end of the stream too, then leaving
  \<^verbatim>\<open>errno\<close> as it is.\<close>

definition sys_readdir :: "host \<Rightarrow> nat \<Rightarrow> world \<Rightarrow> dirent option \<times> world" where
  "sys_readdir h d w =
     (case host_readdir h (w_trace w) d of
        Inl e \<Rightarrow> (None, host_fail (Readdir d) e w)
      | Inr ent \<Rightarrow> (ent, issue (Readdir d) w))"

definition sys_rewinddir :: "host \<Rightarrow> nat \<Rightarrow> world \<Rightarrow> world" where
  "sys_rewinddir h d w = issue (Rewinddir d) w"

definition sys_seekdir :: "host \<Rightarrow> nat \<Rightarrow> int \<Rightarrow> world \<Rightarrow> world" where
  "sys_seekdir h d loc w = issue (Seekdir d loc) w"

definition sys_telldir :: "host \<Rightarrow> nat \<Rightarrow> world \<Rightarrow> int \<times> world" where
  "sys_telldir h d w =
     (case host_telldir h (w_trace w) d of
        Inl e \<Rightarrow> (-1, host_fail (Telldir d) e w)
      | Inr loc \<Rightarrow> (loc, issue (Telldir d) w))"

definition sys_closedir :: "host \<Rightarrow> nat \<Rightarrow> world \<Rightarrow> int \<times> world" where
  "sys_closedir h d w =
     (case host_closedir h (w_trace w) d of
        Inl e \<Rightarrow> (-1, host_fail (Closedir d) e w)
      | Inr _ \<Rightarrow> (0, issue (Closedir d) w))"

subsection \<open>Nodes\<close>

text \<open>\<^verbatim>\<open>struct ZipfsInfo\<close> (zipfs.h): the adapter's payload of a node. \<open>filefd\<close> is -1
  when no file is open, \<open>dirstream\<close> and \<open>hostpath\<close> are \<open>None\<close> for \<^verbatim>\<open>NULL\<close>.\<close>

record ZipfsInfo =
  mode :: u32
  filefd :: int
  dirstream :: "nat option"
  hostpath :: "string option"

text \<open>
  Modelled from the spec: \<^verbatim>\<open>struct VfsInfo\<close>, the framework's node (declared in
  \<^verbatim>\<open>blink/vfs.h\<close>, not among the sources), with the fields \<^verbatim>\<open>zipfs.c\<close> reads and
  writes. \<open>info_data\<close> is the payload behind \<^verbatim>\<open>info->data\<close>; every
  node the framework hands to this adapter was made by \<open>ZipfsInit\<close>, \<open>ZipfsFinddir\<close> or
  \<open>ZipfsOpen\<close> and has one, and the code dereferences it unchecked. The links
  \<^verbatim>\<open>device\<close> and \<^verbatim>\<open>parent\<close> are the framework's; of them the model keeps the reference
  count they move.
\<close>

record VfsInfo =
  info_data :: ZipfsInfo
  info_name :: "string option"
  info_namelen :: nat
  info_dev :: u64
  info_ino :: u64
  info_mode :: u32
  info_refcount :: nat

text \<open>
  Modelled from the spec: \<^verbatim>\<open>unassert\<close> of \<^verbatim>\<open>blink/assert.h\<close> (not among the sources)
  aborts the process where its condition fails (section 7: a violated internal invariant
  must abort loudly). \<open>None\<close> as a return value says that the call does not return.
\<close>

type_synonym status = "int option"

definition ZipfsCreateInfo :: "host \<Rightarrow> world \<Rightarrow> int \<times> ZipfsInfo option \<times> world" where
  "ZipfsCreateInfo h w =
     (case malloc h w of
        (False, w1) \<Rightarrow> (case enomem w1 of (r, w2) \<Rightarrow> (r, None, w2))
      | (True, w1) \<Rightarrow>
          (0, Some \<lparr>mode = 0, filefd = -1, dirstream = None, hostpath = None\<rparr>, w1))"

definition ZipfsFreeInfo :: "host \<Rightarrow> ZipfsInfo option \<Rightarrow> world \<Rightarrow> status \<times> world" where
  "ZipfsFreeInfo h info w =
     (case info of
        None \<Rightarrow> (Some 0, w)
      | Some zipfsinfo \<Rightarrow>
          (case (case dirstream zipfsinfo of
                   None \<Rightarrow> (0, w)
                 | Some d \<Rightarrow> sys_closedir h d w) of
             (r1, w1) \<Rightarrow>
               if r1 \<noteq> 0 then (None, w1)
               else if filefd zipfsinfo \<noteq> -1 then
                 (case sys_close h (filefd zipfsinfo) w1 of
                    (r2, w2) \<Rightarrow> if r2 \<noteq> 0 then (None, w2) else (Some 0, w2))
               else (Some 0, w1)))"

text \<open>\<^verbatim>\<open>struct ZipfsDevice\<close>: the device record.\<close>

record ZipfsDevice =
  source :: string
  sourcelen :: nat

definition ZipfsBuildHostPath :: "host \<Rightarrow> ZipfsInfo \<Rightarrow> string \<Rightarrow> world \<Rightarrow> string option \<times> world" where
  "ZipfsBuildHostPath h parent name w =
     (case hostpath parent of
        None \<Rightarrow> (None, w)
      | Some parentpath \<Rightarrow>
          (case malloc h w of
             (False, w1) \<Rightarrow> (None, w1)
           | (True, w1) \<Rightarrow> (Some (parentpath @ ''/'' @ name), w1)))"

text \<open>
  Modelled from the spec: \<^verbatim>\<open>VfsCreateInfo\<close> of the framework (blink/vfs.c, not among the
  sources) creates a generic node, which takes one allocation and fails with
  \<^verbatim>\<open>ENOMEM\<close>; \<^verbatim>\<open>VfsAcquireInfo\<close> and \<^verbatim>\<open>VfsFreeInfo\<close> add and drop one reference of a
  node, the last reference destroying the node, whose payload is released by
  \<open>ZipfsFreeInfo\<close> (spec, sections 4.4, 4.5, 6 and 9).
\<close>

definition VfsCreateInfo :: "host \<Rightarrow> world \<Rightarrow> int \<times> world" where
  "VfsCreateInfo h w =
     (case malloc h w of (False, w1) \<Rightarrow> enomem w1 | (True, w1) \<Rightarrow> (0, w1))"

definition VfsAcquireInfo :: "VfsInfo \<Rightarrow> VfsInfo" where
  "VfsAcquireInfo info = info\<lparr>info_refcount := Suc (info_refcount info)\<rparr>"

definition VfsFreeInfo :: "host \<Rightarrow> VfsInfo \<Rightarrow> world \<Rightarrow> status \<times> VfsInfo option \<times> world" where
  "VfsFreeInfo h info w =
     (if 1 < info_refcount info
      then (Some 0, Some (info\<lparr>info_refcount := info_refcount info - 1\<rparr>), w)
      else (case ZipfsFreeInfo h (Some (info_data info)) w of (r, w1) \<Rightarrow> (r, None, w1)))"

subsection \<open>Lookup and open\<close>

text \<open>
  What \<^verbatim>\<open>*output\<close> holds when \<open>ZipfsFinddir\<close> or \<open>ZipfsOpen\<close> returns: what it held
  before the call (the checks of the arguments come before \<^verbatim>\<open>*output = NULL\<close>),
  \<^verbatim>\<open>NULL\<close>, the new node, or the address of a node that the call has already released
  (where the copy of the name fails, \<^verbatim>\<open>VfsFreeInfo(*output)\<close> leaves the pointer as it
  is).
\<close>

datatype outptr = Unchanged | Null | Node VfsInfo | Released

text \<open>The result of \<open>ZipfsFinddir\<close> and \<open>ZipfsOpen\<close>: the return value, the parent
  (a successful call acquires a reference of it), \<^verbatim>\<open>*output\<close>, and the world.\<close>

type_synonym lookup_result = "status \<times> VfsInfo option \<times> outptr \<times> world"

text \<open>A failure before \<^verbatim>\<open>*output = NULL\<close>, and one after it.\<close>

definition failed :: "VfsInfo option \<Rightarrow> int \<times> world \<Rightarrow> lookup_result" where
  "failed parent rw = (Some (fst rw), parent, Unchanged, snd rw)"

definition failed_null :: "VfsInfo option \<Rightarrow> int \<times> world \<Rightarrow> lookup_result" where
  "failed_null parent rw = (Some (fst rw), parent, Null, snd rw)"

text \<open>\<^verbatim>\<open>ZipfsFreeInfo(outputinfo); return -1;\<close> with \<^verbatim>\<open>*output\<close> as it stands.\<close>

definition free_and_fail ::
  "host \<Rightarrow> VfsInfo option \<Rightarrow> outptr \<Rightarrow> ZipfsInfo \<Rightarrow> world \<Rightarrow> lookup_result" where
  "free_and_fail h parent out outputinfo w =
     (case ZipfsFreeInfo h (Some outputinfo) w of
        (None, w1) \<Rightarrow> (None, parent, out, w1)
      | (Some _, w1) \<Rightarrow> (Some (-1), parent, out, w1))"

definition ZipfsFinddir ::
  "host \<Rightarrow> VfsInfo option \<Rightarrow> string option \<Rightarrow> bool \<Rightarrow> world \<Rightarrow> lookup_result" where
  "ZipfsFinddir h parent name output w =
     (case parent of
        None \<Rightarrow> failed parent (efault w)
      | Some p \<Rightarrow>
     (case name of
        None \<Rightarrow> failed parent (efault w)
      | Some nm \<Rightarrow>
          if \<not> output then failed parent (efault w)
          else if \<not> S_ISDIR (info_mode p) then failed parent (enotdir w)
          else
            (case ZipfsBuildHostPath h (info_data p) nm w of
               (None, w1) \<Rightarrow> failed_null parent (enomem w1)
             | (Some path, w1) \<Rightarrow>
            (case sys_stat h path w1 of
               (None, w2) \<Rightarrow> (Some (-1), parent, Null, w2)
             | (Some st, w2) \<Rightarrow>
            (case ZipfsCreateInfo h w2 of
               (_, None, w3) \<Rightarrow> (Some (-1), parent, Null, w3)
             | (_, Some info, w3) \<Rightarrow>
            (let outputinfo = info\<lparr>mode := st_mode st, hostpath := Some path, filefd := -1\<rparr> in
            (case VfsCreateInfo h w3 of
               (r4, w4) \<Rightarrow>
                 if r4 = -1 then free_and_fail h parent Null outputinfo w4
                 else
            (case malloc h w4 of
               (False, w5) \<Rightarrow> free_and_fail h parent Released outputinfo (snd (enomem w5))
             | (True, w5) \<Rightarrow>
            (case ZipfsHash h (st_dev st) (Some (ino_bytes h (st_ino st))) w5 of
               (ino, w6) \<Rightarrow>
                 (Some 0,
                  Some (VfsAcquireInfo p),
                  Node \<lparr>info_data = outputinfo,
                        info_name = Some nm,
                        info_namelen = length nm,
                        info_dev = info_dev p,
                        info_ino = ino,
                        info_mode = st_mode st,
                        info_refcount = 1\<rparr>,
                  w6))))))))))"

definition ZipfsOpen ::
  "host \<Rightarrow> VfsInfo option \<Rightarrow> string option \<Rightarrow> u32 \<Rightarrow> u32 \<Rightarrow> bool \<Rightarrow> world \<Rightarrow> lookup_result" where
  "ZipfsOpen h parent name flags omode output w =
     (case parent of
        None \<Rightarrow> failed parent (efault w)
      | Some p \<Rightarrow>
     (case name of
        None \<Rightarrow> failed parent (efault w)
      | Some nm \<Rightarrow>
          if \<not> output then failed parent (efault w)
          else if \<not> S_ISDIR (info_mode p) then failed parent (enotdir w)
          else if flags AND O_ACCMODE \<noteq> O_RDONLY then failed parent (eacces w)
          else if flags AND (O_CREAT OR O_TRUNC OR O_APPEND) \<noteq> 0 then failed parent (eacces w)
          else
            (case ZipfsBuildHostPath h (info_data p) nm w of
               (None, w1) \<Rightarrow> failed_null parent (enomem w1)
             | (Some path, w1) \<Rightarrow>
            (case sys_open h path O_RDONLY w1 of
               (fd, w2) \<Rightarrow>
                 if fd = -1 then (Some (-1), parent, Null, w2)
                 else
            (case sys_fstat h fd w2 of
               (None, w3) \<Rightarrow> (Some (-1), parent, Null, snd (sys_close h fd w3))
             | (Some st, w3) \<Rightarrow>
            (case ZipfsCreateInfo h w3 of
               (_, None, w4) \<Rightarrow> (Some (-1), parent, Null, snd (sys_close h fd w4))
             | (_, Some info, w4) \<Rightarrow>
            (let outputinfo = info\<lparr>mode := st_mode st, hostpath := Some path, filefd := fd\<rparr> in
            (case VfsCreateInfo h w4 of
               (r5, w5) \<Rightarrow>
                 if r5 = -1 then free_and_fail h parent Null outputinfo w5
                 else
            (case malloc h w5 of
               (False, w6) \<Rightarrow> free_and_fail h parent Released outputinfo (snd (enomem w6))
             | (True, w6) \<Rightarrow>
            (case ZipfsHash h (st_dev st) (Some (ino_bytes h (st_ino st))) w6 of
               (ino, w7) \<Rightarrow>
                 (Some 0,
                  Some (VfsAcquireInfo p),
                  Node \<lparr>info_data = outputinfo,
                        info_name = Some nm,
                        info_namelen = length nm,
                        info_dev = info_dev p,
                        info_ino = ino,
                        info_mode = st_mode st,
                        info_refcount = 1\<rparr>,
                  w7)))))))))))"

subsection \<open>Access, stat, fstat\<close>

definition ZipfsAccess ::
  "host \<Rightarrow> VfsInfo option \<Rightarrow> string option \<Rightarrow> u32 \<Rightarrow> u32 \<Rightarrow> world \<Rightarrow> int \<times> world" where
  "ZipfsAccess h parent name amode flags w =
     (case parent of
        None \<Rightarrow> efault w
      | Some p \<Rightarrow>
     (case name of
        None \<Rightarrow> efault w
      | Some nm \<Rightarrow>
          if amode AND W_OK \<noteq> 0 then eacces w
          else
            (case ZipfsBuildHostPath h (info_data p) nm w of
               (None, w1) \<Rightarrow> enomem w1
             | (Some path, w1) \<Rightarrow> sys_access h path amode w1)))"

text \<open>The result of \<open>ZipfsStat\<close> and \<open>ZipfsFstat\<close>: the return value, what the call wrote
  to \<^verbatim>\<open>*st\<close>, and the world.\<close>

type_synonym stat_result = "int \<times> stat option \<times> world"

definition stat_failed :: "int \<times> world \<Rightarrow> stat_result" where
  "stat_failed rw = (fst rw, None, snd rw)"

definition ZipfsStat ::
  "host \<Rightarrow> VfsInfo option \<Rightarrow> string option \<Rightarrow> bool \<Rightarrow> u32 \<Rightarrow> world \<Rightarrow> stat_result" where
  "ZipfsStat h parent name st flags w =
     (case parent of
        None \<Rightarrow> stat_failed (efault w)
      | Some p \<Rightarrow>
     (case name of
        None \<Rightarrow> stat_failed (efault w)
      | Some nm \<Rightarrow>
          if \<not> st then stat_failed (efault w)
          else
            (case ZipfsBuildHostPath h (info_data p) nm w of
               (None, w1) \<Rightarrow> stat_failed (enomem w1)
             | (Some path, w1) \<Rightarrow>
            (case (if flags AND AT_SYMLINK_NOFOLLOW \<noteq> 0 then sys_lstat h path w1
                   else sys_stat h path w1) of
               (None, w2) \<Rightarrow> (-1, None, w2)
             | (Some hst, w2) \<Rightarrow>
            (case ZipfsHash h (st_dev hst) (Some (ino_bytes h (st_ino hst))) w2 of
               (ino, w3) \<Rightarrow> (0, Some (hst\<lparr>st_ino := ino, st_dev := info_dev p\<rparr>), w3))))))"

definition ZipfsFstat ::
  "host \<Rightarrow> VfsInfo option \<Rightarrow> bool \<Rightarrow> world \<Rightarrow> stat_result" where
  "ZipfsFstat h info st w =
     (case info of
        None \<Rightarrow> stat_failed (efault w)
      | Some i \<Rightarrow>
          if \<not> st then stat_failed (efault w)
          else
            (case (if filefd (info_data i) \<noteq> -1
                   then Some (sys_fstat h (filefd (info_data i)) w)
                   else (case hostpath (info_data i) of
                           Some path \<Rightarrow> Some (sys_stat h path w)
                         | None \<Rightarrow> None)) of
               None \<Rightarrow> stat_failed (ebadf w)
             | Some (None, w1) \<Rightarrow> (-1, None, w1)
             | Some (Some hst, w1) \<Rightarrow>
            (case ZipfsHash h (st_dev hst) (Some (ino_bytes h (st_ino hst))) w1 of
               (ino, w2) \<Rightarrow> (0, Some (hst\<lparr>st_ino := ino, st_dev := info_dev i\<rparr>), w2))))"

subsection \<open>Files\<close>

definition ZipfsClose :: "host \<Rightarrow> VfsInfo option \<Rightarrow> world \<Rightarrow> int \<times> VfsInfo option \<times> world" where
  "ZipfsClose h info w =
     (case info of
        None \<Rightarrow> (case efault w of (r, w1) \<Rightarrow> (r, info, w1))
      | Some i \<Rightarrow>
          if filefd (info_data i) = -1 then (case ebadf w of (r, w1) \<Rightarrow> (r, info, w1))
          else
            (case sys_close h (filefd (info_data i)) w of
               (ret, w1) \<Rightarrow> (ret, Some (i\<lparr>info_data := (info_data i)\<lparr>filefd := -1\<rparr>\<rparr>), w1)))"

text \<open>The result of a read: the return value, the bytes written to the buffer, the world.\<close>

type_synonym read_result = "int \<times> byte list \<times> world"

definition read_failed :: "int \<times> world \<Rightarrow> read_result" where
  "read_failed rw = (fst rw, [], snd rw)"

definition ZipfsRead :: "host \<Rightarrow> VfsInfo option \<Rightarrow> bool \<Rightarrow> nat \<Rightarrow> world \<Rightarrow> read_result" where
  "ZipfsRead h info buf count w =
     (case info of
        None \<Rightarrow> read_failed (efault w)
      | Some i \<Rightarrow>
          if \<not> buf then read_failed (efault w)
          else if filefd (info_data i) = -1 then read_failed (ebadf w)
          else sys_read h (filefd (info_data i)) count w)"

definition ZipfsReadv ::
  "host \<Rightarrow> VfsInfo option \<Rightarrow> nat list option \<Rightarrow> int \<Rightarrow> world \<Rightarrow> read_result" where
  "ZipfsReadv h info iov iovcnt w =
     (case info of
        None \<Rightarrow> read_failed (efault w)
      | Some i \<Rightarrow>
     (case iov of
        None \<Rightarrow> read_failed (efault w)
      | Some lens \<Rightarrow>
          if filefd (info_data i) = -1 then read_failed (ebadf w)
          else sys_readv h (filefd (info_data i)) lens iovcnt w))"

definition ZipfsPread ::
  "host \<Rightarrow> VfsInfo option \<Rightarrow> bool \<Rightarrow> nat \<Rightarrow> int \<Rightarrow> world \<Rightarrow> read_result" where
  "ZipfsPread h info buf count offset w =
     (case info of
        None \<Rightarrow> read_failed (efault w)
      | Some i \<Rightarrow>
          if \<not> buf then read_failed (efault w)
          else if filefd (info_data i) = -1 then read_failed (ebadf w)
          else sys_pread h (filefd (info_data i)) count offset w)"

definition ZipfsSeek :: "host \<Rightarrow> VfsInfo option \<Rightarrow> int \<Rightarrow> int \<Rightarrow> world \<Rightarrow> int \<times> world" where
  "ZipfsSeek h info offset whence w =
     (case info of
        None \<Rightarrow> efault w
      | Some i \<Rightarrow>
          if filefd (info_data i) = -1 then ebadf w
          else sys_lseek h (filefd (info_data i)) offset whence w)"

subsection \<open>Directories\<close>

text \<open>\<open>ZipfsOpendir\<close> returns the node twice: \<^verbatim>\<open>*output\<close> is the node itself, with one
  more reference.\<close>

definition ZipfsOpendir ::
  "host \<Rightarrow> VfsInfo option \<Rightarrow> bool \<Rightarrow> world \<Rightarrow> int \<times> VfsInfo option \<times> VfsInfo option \<times> world" where
  "ZipfsOpendir h info output w =
     (case info of
        None \<Rightarrow> (case efault w of (r, w1) \<Rightarrow> (r, info, None, w1))
      | Some i \<Rightarrow>
          if \<not> output then (case efault w of (r, w1) \<Rightarrow> (r, info, None, w1))
          else if \<not> S_ISDIR (mode (info_data i)) then
            (case enotdir w of (r, w1) \<Rightarrow> (r, info, None, w1))
          else
            (case hostpath (info_data i) of
               None \<Rightarrow> (case ebadf w of (r, w1) \<Rightarrow> (r, info, None, w1))
             | Some path \<Rightarrow>
                 (case sys_opendir h path w of
                    (None, w1) \<Rightarrow> (-1, info, None, w1)
                  | (Some d, w1) \<Rightarrow>
                      (let i' = VfsAcquireInfo (i\<lparr>info_data := (info_data i)\<lparr>dirstream := Some d\<rparr>\<rparr>)
                       in (0, Some i', Some i', w1)))))"

definition ZipfsReaddir :: "host \<Rightarrow> VfsInfo option \<Rightarrow> world \<Rightarrow> dirent option \<times> world" where
  "ZipfsReaddir h info w =
     (case info of
        None \<Rightarrow> (None, snd (efault w))
      | Some i \<Rightarrow>
          (case dirstream (info_data i) of
             None \<Rightarrow> (None, w)
           | Some d \<Rightarrow> sys_readdir h d w))"

definition ZipfsRewinddir :: "host \<Rightarrow> VfsInfo option \<Rightarrow> world \<Rightarrow> world" where
  "ZipfsRewinddir h info w =
     (case info of
        None \<Rightarrow> snd (efault w)
      | Some i \<Rightarrow>
          (case dirstream (info_data i) of
             None \<Rightarrow> w
           | Some d \<Rightarrow> sys_rewinddir h d w))"

definition ZipfsSeekdir :: "host \<Rightarrow> VfsInfo option \<Rightarrow> int \<Rightarrow> world \<Rightarrow> world" where
  "ZipfsSeekdir h info loc w =
     (case info of
        None \<Rightarrow> snd (efault w)
      | Some i \<Rightarrow>
          (case dirstream (info_data i) of
             None \<Rightarrow> w
           | Some d \<Rightarrow> sys_seekdir h d loc w))"

definition ZipfsTelldir :: "host \<Rightarrow> VfsInfo option \<Rightarrow> world \<Rightarrow> int \<times> world" where
  "ZipfsTelldir h info w =
     (case info of
        None \<Rightarrow> (-1, snd (efault w))
      | Some i \<Rightarrow>
          (case dirstream (info_data i) of
             None \<Rightarrow> ebadf w
           | Some d \<Rightarrow> sys_telldir h d w))"

definition ZipfsClosedir ::
  "host \<Rightarrow> VfsInfo option \<Rightarrow> world \<Rightarrow> status \<times> VfsInfo option \<times> world" where
  "ZipfsClosedir h info w =
     (case info of
        None \<Rightarrow> (case efault w of (r, w1) \<Rightarrow> (Some r, info, w1))
      | Some i \<Rightarrow>
          (case dirstream (info_data i) of
             None \<Rightarrow> (case ebadf w of (r, w1) \<Rightarrow> (Some r, info, w1))
           | Some d \<Rightarrow>
               (case sys_closedir h d w of
                  (r1, w1) \<Rightarrow>
                    if r1 = -1 then (Some (-1), info, w1)
                    else
                      (case VfsFreeInfo h (i\<lparr>info_data := (info_data i)\<lparr>dirstream := None\<rparr>\<rparr>) w1 of
                         (None, i', w2) \<Rightarrow> (None, i', w2)
                       | (Some r2, i', w2) \<Rightarrow>
                           if r2 \<noteq> 0 then (None, i', w2) else (Some 0, i', w2)))))"

definition ZipfsReadlink :: "host \<Rightarrow> VfsInfo option \<Rightarrow> bool \<Rightarrow> world \<Rightarrow> int \<times> world" where
  "ZipfsReadlink h info output w = einval w"

subsection \<open>Mounting\<close>

text \<open>
  \<open>ZipfsInit\<close> makes seven allocations, in this order. The model keeps account of them:
  which objects are allocated and not yet freed, and what each pointer of the function
  holds. \<^verbatim>\<open>(*mount)->root\<close> lies in memory that \<^verbatim>\<open>malloc\<close> returned and nothing
  initialised, until \<^verbatim>\<open>VfsCreateInfo\<close> stores the new node there.
\<close>

datatype obj =
    ZipDeviceRec   \<comment> \<open>\<^verbatim>\<open>zipdevice = malloc(sizeof(struct ZipfsDevice))\<close>\<close>
  | SourceStr      \<comment> \<open>\<^verbatim>\<open>zipdevice->source = strdup(src)\<close>\<close>
  | DeviceObj      \<comment> \<open>\<^verbatim>\<open>VfsCreateDevice(device)\<close>\<close>
  | MountObj       \<comment> \<open>\<^verbatim>\<open>*mount = malloc(sizeof(struct VfsMount))\<close>\<close>
  | RootInfoObj    \<comment> \<open>\<^verbatim>\<open>VfsCreateInfo(&(*mount)->root)\<close>\<close>
  | PayloadObj     \<comment> \<open>\<^verbatim>\<open>ZipfsCreateInfo(&zipfsrootinfo)\<close>\<close>
  | HostPathStr    \<comment> \<open>\<^verbatim>\<open>zipfsrootinfo->hostpath = strdup(src)\<close>\<close>

datatype rootptr = Uninit | Ptr "obj option"

datatype fault = NullDeref | WildPointer

record init_state =
  i_live :: "obj set"
  i_zipdevice :: "obj option"
  i_source :: "obj option"
  i_device :: "obj option"
  i_device_data :: "obj option"
  i_device_refs :: nat
  i_mount :: "obj option"
  i_root :: rootptr
  i_root_data :: "obj option"
  i_root_device :: "obj option"
  i_rootinfo :: "obj option"
  i_hostpath :: "obj option"

text \<open>The state after \<^verbatim>\<open>zipdevice = NULL; zipfsrootinfo = NULL; *device = NULL;
  *mount = NULL;\<close>.\<close>

definition init_start :: init_state where
  "init_start =
     \<lparr>i_live = {}, i_zipdevice = None, i_source = None, i_device = None,
      i_device_data = None, i_device_refs = 0, i_mount = None, i_root = Uninit,
      i_root_data = None, i_root_device = None, i_rootinfo = None, i_hostpath = None\<rparr>"

definition allocated :: "obj \<Rightarrow> init_state \<Rightarrow> init_state" where
  "allocated x s = s\<lparr>i_live := insert x (i_live s)\<rparr>"

text \<open>\<^verbatim>\<open>free(p)\<close>; \<^verbatim>\<open>free(NULL)\<close> does nothing.\<close>

definition free :: "obj option \<Rightarrow> init_state \<Rightarrow> init_state" where
  "free p s = (case p of None \<Rightarrow> s | Some x \<Rightarrow> s\<lparr>i_live := i_live s - {x}\<rparr>)"

text \<open>\<open>ZipfsFreeDevice\<close>: \<^verbatim>\<open>free((void *)zipfsdevice->source); free(zipfsdevice);\<close>.\<close>

definition ZipfsFreeDevice :: "obj option \<Rightarrow> init_state \<Rightarrow> init_state" where
  "ZipfsFreeDevice device s =
     (case device of
        None \<Rightarrow> s
      | Some zipfsdevice \<Rightarrow> free (Some zipfsdevice) (free (i_source s) s))"

text \<open>\<open>ZipfsFreeInfo\<close> on the accounts (the root's payload has no descriptor and no
  stream to close): \<^verbatim>\<open>free(zipfsinfo->hostpath); free(info);\<close>.\<close>

definition ZipfsFreeInfo_mem :: "obj option \<Rightarrow> init_state \<Rightarrow> init_state" where
  "ZipfsFreeInfo_mem info s =
     (case info of
        None \<Rightarrow> s
      | Some zipfsinfo \<Rightarrow> free (Some zipfsinfo) (free (i_hostpath s) s))"

text \<open>
  Modelled from the spec: the framework's \<^verbatim>\<open>VfsCreateDevice\<close>, \<^verbatim>\<open>VfsAcquireDevice\<close>,
  \<^verbatim>\<open>VfsFreeDevice\<close> and \<^verbatim>\<open>VfsFreeInfo\<close> (blink/vfs.c, not among the sources). A device
  is created with one reference and no data; acquiring adds a reference; releasing
  drops one, and the last release frees the adapter's record through \<open>ZipfsFreeDevice\<close>
  and then the device (spec, sections 3 and 4.5). Releasing the last reference of a node
  releases its payload through \<open>ZipfsFreeInfo\<close>, its reference of the device, and the
  node (section 4.5). A creation that fails stores nothing. \<open>VfsCreateRoot\<close> and
  \<open>VfsFreeRoot\<close> are \<^verbatim>\<open>VfsCreateInfo\<close> and \<^verbatim>\<open>VfsFreeInfo\<close> on the root node,
  \<open>VfsAcquireDevice\<close> is the call that stores the device in \<^verbatim>\<open>root->device\<close>.
\<close>

definition VfsCreateDevice :: "host \<Rightarrow> init_state \<Rightarrow> world \<Rightarrow> int \<times> init_state \<times> world" where
  "VfsCreateDevice h s w =
     (case malloc h w of
        (False, w1) \<Rightarrow> (case enomem w1 of (r, w2) \<Rightarrow> (r, s, w2))
      | (True, w1) \<Rightarrow>
          (0, allocated DeviceObj
                (s\<lparr>i_device := Some DeviceObj, i_device_data := None, i_device_refs := 1\<rparr>), w1))"

definition VfsFreeDevice :: "init_state \<Rightarrow> init_state" where
  "VfsFreeDevice s =
     (if 1 < i_device_refs s then s\<lparr>i_device_refs := i_device_refs s - 1\<rparr>
      else free (Some DeviceObj) (ZipfsFreeDevice (i_device_data s) (s\<lparr>i_device_refs := 0\<rparr>)))"

definition VfsCreateRoot :: "host \<Rightarrow> init_state \<Rightarrow> world \<Rightarrow> int \<times> init_state \<times> world" where
  "VfsCreateRoot h s w =
     (case malloc h w of
        (False, w1) \<Rightarrow> (case enomem w1 of (r, w2) \<Rightarrow> (r, s, w2))
      | (True, w1) \<Rightarrow>
          (0, allocated RootInfoObj
                (s\<lparr>i_root := Ptr (Some RootInfoObj), i_root_data := None,
                   i_root_device := None\<rparr>), w1))"

definition VfsAcquireDevice :: "init_state \<Rightarrow> init_state" where
  "VfsAcquireDevice s = s\<lparr>i_root_device := i_device s, i_device_refs := Suc (i_device_refs s)\<rparr>"

definition VfsFreeRoot :: "init_state \<Rightarrow> init_state" where
  "VfsFreeRoot s =
     (let s1 = ZipfsFreeInfo_mem (i_root_data s) s;
          s2 = (if i_root_device s1 \<noteq> None then VfsFreeDevice s1 else s1)
      in free (Some RootInfoObj) s2)"

record init_result =
  init_ret :: status
  init_fault :: "fault option"
  init_heap :: init_state
  init_device :: "ZipfsDevice option"
  init_root :: "VfsInfo option"
  init_world :: world

definition init_return :: "int \<Rightarrow> init_state \<Rightarrow> world \<Rightarrow> init_result" where
  "init_return r s w =
     \<lparr>init_ret = Some r, init_fault = None, init_heap = s, init_device = None,
      init_root = None, init_world = w\<rparr>"

definition init_crash :: "fault \<Rightarrow> init_state \<Rightarrow> world \<Rightarrow> init_result" where
  "init_crash f s w =
     \<lparr>init_ret = None, init_fault = Some f, init_heap = s, init_device = None,
      init_root = None, init_world = w\<rparr>"

text \<open>
  The label \<^verbatim>\<open>cleananddie\<close>. The test \<^verbatim>\<open>if ((*mount)->root)\<close> reads the field as it
  is: where nothing was stored it reads garbage, which is \<^verbatim>\<open>NULL\<close> or a pointer that
  \<^verbatim>\<open>VfsFreeInfo\<close> must not be given. The else branch
  \<^verbatim>\<open>free(zipfsrootinfo->hostpath)\<close> dereferences \<^verbatim>\<open>zipfsrootinfo\<close> unchecked.
\<close>

definition cleananddie :: "host \<Rightarrow> init_state \<Rightarrow> world \<Rightarrow> init_result" where
  "cleananddie h s w =
     (let s1 = (if i_device s \<noteq> None then VfsFreeDevice s
                else if i_zipdevice s \<noteq> None
                  then free (i_zipdevice s) (free (i_source s) s)
                  else s)
      in
        if i_mount s1 \<noteq> None then
          (case (case i_root s1 of
                   Ptr p \<Rightarrow> Some p
                 | Uninit \<Rightarrow> if heap_garbage_null h then Some None else None) of
             None \<Rightarrow> init_crash WildPointer s1 w
           | Some (Some root) \<Rightarrow> init_return (-1) (free (i_mount s1) (VfsFreeRoot s1)) w
           | Some None \<Rightarrow>
               (case i_rootinfo s1 of
                  None \<Rightarrow> init_crash NullDeref s1 w
                | Some zipfsrootinfo \<Rightarrow>
                    init_return (-1)
                      (free (i_mount s1) (free (Some zipfsrootinfo) (free (i_hostpath s1) s1))) w))
        else init_return (-1) s1 w)"

text \<open>\<^verbatim>\<open>src = (source && source[0]) ? source : "/zip";\<close>\<close>

definition init_src :: "string option \<Rightarrow> string" where
  "init_src source_arg =
     (case source_arg of
        None \<Rightarrow> ''/zip''
      | Some s \<Rightarrow> if s \<noteq> [] then s else ''/zip'')"

definition ZipfsInit :: "host \<Rightarrow> string option \<Rightarrow> world \<Rightarrow> init_result" where
  "ZipfsInit h source_arg w =
     (let src = init_src source_arg in
     (case sys_stat h src w of
        (None, w1) \<Rightarrow> init_return (-1) init_start w1
      | (Some st, w1) \<Rightarrow>
          if \<not> S_ISDIR (st_mode st) then
            (case enotdir w1 of (r, w2) \<Rightarrow> init_return r init_start w2)
          else
     (case malloc h w1 of
        (False, w2) \<Rightarrow> (case enomem w2 of (r, w3) \<Rightarrow> init_return r init_start w3)
      | (True, w2) \<Rightarrow>
     (let s1 = allocated ZipDeviceRec (init_start\<lparr>i_zipdevice := Some ZipDeviceRec\<rparr>) in
     (case malloc h w2 of
        (False, w3) \<Rightarrow> cleananddie h s1 w3
      | (True, w3) \<Rightarrow>
     (let s2 = allocated SourceStr (s1\<lparr>i_source := Some SourceStr\<rparr>);
          len = length src;
          len' = (if 0 < len \<and> src ! (len - 1) = CHR ''/'' then len - 1 else len)
      in
     (case VfsCreateDevice h s2 w3 of
        (r4, s3, w4) \<Rightarrow>
          if r4 = -1 then cleananddie h s3 w4
          else
     (let s4 = s3\<lparr>i_device_data := i_zipdevice s3\<rparr> in
     (case malloc h w4 of
        (False, w5) \<Rightarrow> cleananddie h s4 w5
      | (True, w5) \<Rightarrow>
     (let s5 = allocated MountObj (s4\<lparr>i_mount := Some MountObj, i_root := Uninit\<rparr>) in
     (case VfsCreateRoot h s5 w5 of
        (r6, s6, w6) \<Rightarrow>
          if r6 = -1 then cleananddie h s6 w6
          else
     (let s7 = VfsAcquireDevice s6 in
     (case ZipfsCreateInfo h w6 of
        (_, None, w7) \<Rightarrow> cleananddie h s7 w7
      | (_, Some info, w7) \<Rightarrow>
     (let s8 = allocated PayloadObj (s7\<lparr>i_rootinfo := Some PayloadObj, i_hostpath := None\<rparr>) in
     (case malloc h w7 of
        (False, w8) \<Rightarrow> cleananddie h s8 w8
      | (True, w8) \<Rightarrow>
     (let s9 = allocated HostPathStr (s8\<lparr>i_hostpath := Some HostPathStr\<rparr>);
          zipfsrootinfo = info\<lparr>hostpath := Some src, mode := st_mode st\<rparr>;
          s10 = s9\<lparr>i_root_data := i_rootinfo s9\<rparr>
      in
     (case ZipfsHash h (st_dev st) (Some (ino_bytes h (st_ino st))) w8 of
        (ino, w9) \<Rightarrow>
          \<lparr>init_ret = Some 0,
           init_fault = None,
           init_heap = s10,
           init_device = Some \<lparr>source = src, sourcelen = len'\<rparr>,
           init_root = Some \<lparr>info_data = zipfsrootinfo,
                              info_name = None,
                              info_namelen = 0,
                              info_dev = 0,
                              info_ino = ino,
                              info_mode = st_mode st,
                              info_refcount = 1\<rparr>,
           init_world = w9\<rparr>)))))))))))))))))"

subsection \<open>Sequences of operations on one node\<close>

text \<open>
  The operations of the adapter that take a node: as the parent of a lookup or an open
  (the node made is another node), or as the file or directory operated on. A sequence
  ends where the process aborts or where the last reference of the node is dropped.
\<close>

datatype node_op =
    OpFinddir string
  | OpOpen string u32
  | OpFstat
  | OpClose
  | OpRead nat
  | OpReadv "nat list" int
  | OpPread nat int
  | OpSeek int int
  | OpOpendir
  | OpReaddir
  | OpRewinddir
  | OpSeekdir int
  | OpTelldir
  | OpClosedir

definition run_op :: "host \<Rightarrow> node_op \<Rightarrow> VfsInfo \<Rightarrow> world \<Rightarrow> (VfsInfo \<times> world) option" where
  "run_op h op i w =
     (case op of
        OpFinddir nm \<Rightarrow>
          (case ZipfsFinddir h (Some i) (Some nm) True w of
             (None, _, _, _) \<Rightarrow> None
           | (Some _, i', _, w') \<Rightarrow> map_option (\<lambda>n. (n, w')) i')
      | OpOpen nm flags \<Rightarrow>
          (case ZipfsOpen h (Some i) (Some nm) flags 0 True w of
             (None, _, _, _) \<Rightarrow> None
           | (Some _, i', _, w') \<Rightarrow> map_option (\<lambda>n. (n, w')) i')
      | OpFstat \<Rightarrow> (case ZipfsFstat h (Some i) True w of (_, _, w') \<Rightarrow> Some (i, w'))
      | OpClose \<Rightarrow>
          (case ZipfsClose h (Some i) w of (_, i', w') \<Rightarrow> map_option (\<lambda>n. (n, w')) i')
      | OpRead n \<Rightarrow> (case ZipfsRead h (Some i) True n w of (_, _, w') \<Rightarrow> Some (i, w'))
      | OpReadv iov cnt \<Rightarrow>
          (case ZipfsReadv h (Some i) (Some iov) cnt w of (_, _, w') \<Rightarrow> Some (i, w'))
      | OpPread n off \<Rightarrow>
          (case ZipfsPread h (Some i) True n off w of (_, _, w') \<Rightarrow> Some (i, w'))
      | OpSeek off whence \<Rightarrow>
          (case ZipfsSeek h (Some i) off whence w of (_, w') \<Rightarrow> Some (i, w'))
      | OpOpendir \<Rightarrow>
          (case ZipfsOpendir h (Some i) True w of
             (_, i', _, w') \<Rightarrow> map_option (\<lambda>n. (n, w')) i')
      | OpReaddir \<Rightarrow> Some (i, snd (ZipfsReaddir h (Some i) w))
      | OpRewinddir \<Rightarrow> Some (i, ZipfsRewinddir h (Some i) w)
      | OpSeekdir loc \<Rightarrow> Some (i, ZipfsSeekdir h (Some i) loc w)
      | OpTelldir \<Rightarrow> Some (i, snd (ZipfsTelldir h (Some i) w))
      | OpClosedir \<Rightarrow>
          (case ZipfsClosedir h (Some i) w of
             (None, _, _) \<Rightarrow> None
           | (Some _, i', w') \<Rightarrow> map_option (\<lambda>n. (n, w')) i'))"

fun run_ops :: "host \<Rightarrow> node_op list \<Rightarrow> VfsInfo \<Rightarrow> world \<Rightarrow> (VfsInfo \<times> world) option" where
  "run_ops h [] i w = Some (i, w)"
| "run_ops h (op # ops) i w =
     (case run_op h op i w of
        None \<Rightarrow> None
      | Some (i', w') \<Rightarrow> run_ops h ops i' w')"

subsection \<open>A host to run the model on\<close>

text \<open>
  A host with the directory \<^verbatim>\<open>/zip\<close>, holding the file \<^verbatim>\<open>a.txt\<close> and the directory
  \<^verbatim>\<open>sub\<close>, on which every allocation succeeds; and the root node of its mount.
\<close>

definition dir_stat :: stat where
  "dir_stat = \<lparr>st_dev = 2049, st_ino = 1000, st_mode = 0x41ED, st_size = 4096\<rparr>"

definition file_stat :: stat where
  "file_stat = \<lparr>st_dev = 2049, st_ino = 1001, st_mode = 0x81A4, st_size = 2\<rparr>"

definition example_stat :: "string \<Rightarrow> errno + stat" where
  "example_stat path =
     (if path = ''/zip'' \<or> path = ''/zip/'' \<or> path = ''/zip/sub'' then Inr dir_stat
      else if path = ''/zip/a.txt'' then Inr file_stat
      else Inl ENOENT)"

definition example_host :: host where
  "example_host =
     \<lparr>char_signed = True,
      big_endian = False,
      heap_garbage_null = True,
      alloc_ok = (\<lambda>k. True),
      host_stat = (\<lambda>tr. example_stat),
      host_lstat = (\<lambda>tr. example_stat),
      host_fstat = (\<lambda>tr fd. if fd = 3 then Inr file_stat
                              else if fd = 4 then Inr dir_stat else Inl EBADF),
      host_open = (\<lambda>tr path fl. if path = ''/zip/a.txt'' then Inr 3
                                 else if path = ''/zip/sub'' then Inr 4 else Inl ENOENT),
      host_close = (\<lambda>tr fd. Inr ()),
      host_read = (\<lambda>tr fd n. Inr (take n [104, 105])),
      host_readv = (\<lambda>tr fd iov cnt. Inr []),
      host_pread = (\<lambda>tr fd n off. Inr (take n [104, 105])),
      host_lseek = (\<lambda>tr fd off whence. Inr off),
      host_access = (\<lambda>tr path amode. Inr ()),
      host_opendir = (\<lambda>tr path. if path = ''/zip'' \<or> path = ''/zip/sub'' then Inr 1
                                  else Inl ENOENT),
      host_readdir = (\<lambda>tr d. Inr None),
      host_telldir = (\<lambda>tr d. Inr 0),
      host_closedir = (\<lambda>tr d. Inr ())\<rparr>"

definition example_world :: world where
  "example_world = \<lparr>w_errno = None, w_trace = [], w_nalloc = 0\<rparr>"

definition example_root :: VfsInfo where
  "example_root =
     \<lparr>info_data = \<lparr>mode = 0x41ED, filefd = -1, dirstream = None, hostpath = Some ''/zip''\<rparr>,
      info_name = None,
      info_namelen = 0,
      info_dev = 7,
      info_ino = 1,
      info_mode = 0x41ED,
      info_refcount = 1\<rparr>"

text \<open>The node of \<^verbatim>\<open>/zip/a.txt\<close> as a lookup leaves it.\<close>

definition example_file :: VfsInfo where
  "example_file =
     \<lparr>info_data = \<lparr>mode = 0x81A4, filefd = -1, dirstream = None,
                    hostpath = Some ''/zip/a.txt''\<rparr>,
      info_name = Some ''a.txt'',
      info_namelen = 5,
      info_dev = 7,
      info_ino = 2,
      info_mode = 0x81A4,
      info_refcount = 1\<rparr>"

section \<open>Properties\<close>

subsection \<open>Auxiliary facts\<close>

lemmas raise_defs = raise_def efault_def enotdir_def eacces_def enomem_def ebadf_def einval_def

text \<open>Sign extension of a byte, in arithmetic: the byte's value, less 256 from
  \<^verbatim>\<open>0x80\<close> on.\<close>

lemma scast_byte:
  "(scast (b :: byte) :: u64) = (if 0x80 \<le> b then ucast b - 0x100 else ucast b)"
proof -
  have u: "0 \<le> uint b" "uint b < 256"
    using uint_bounded[of b] by simp_all
  have le: "(0x80 \<le> b) = (128 \<le> uint b)"
    by (simp add: word_le_def)
  have d: "uint b div 128 = (if 128 \<le> uint b then 1 else 0)"
    using u by auto
  have bit7: "bit (uint b) 7 = (128 \<le> uint b)"
    by (simp add: bit_iff_odd_drop_bit drop_bit_eq_div d)
  have "sint b = uint b - 256 * of_bool (128 \<le> uint b)"
    by (simp add: sint_uint signed_take_bit_eq_take_bit_minus bit7 take_bit_eq_mod u)
  then have "(scast b :: u64) = word_of_int (uint b) - 256 * of_bool (128 \<le> uint b)"
    by (simp only: scast_eq of_int_diff of_int_mult of_int_numeral of_int_of_bool)
  then show ?thesis
    by (simp add: le)
qed

lemma char_to_u64_value:
  "char_to_u64 h b = (if char_signed h \<and> 0x80 \<le> b then ucast b - 0x100 else ucast b)"
  by (simp add: char_to_u64_def scast_byte)

lemma ZipfsHash_loop_fold:
  "ZipfsHash_loop h seed bs =
     fold (\<lambda>b. spec_synth_step
                  (if char_signed h \<and> 0x80 \<le> b then ucast b - 0x100 else ucast b)) bs seed"
  by (induction bs arbitrary: seed) (simp_all add: spec_synth_step_def char_to_u64_value)

lemma ZipfsHash_loop_plain:
  "\<not> char_signed h \<or> (\<forall>b\<in>set bs. b < 0x80) \<Longrightarrow> ZipfsHash_loop h seed bs = spec_synth seed bs"
  unfolding spec_synth_def
proof (induction bs arbitrary: seed)
  case Nil
  then show ?case by simp
next
  case (Cons b bs)
  from Cons.prems have "char_to_u64 h b = ucast b"
    by (auto simp: char_to_u64_value)
  moreover from Cons.prems have "\<not> char_signed h \<or> (\<forall>b\<in>set bs. b < 0x80)"
    by auto
  ultimately show ?case
    using Cons.IH by (simp add: spec_synth_step_def)
qed

lemma ZipfsHash_Some: "ZipfsHash h seed (Some bs) w = (ZipfsHash_loop h seed bs, w)"
  by (simp add: ZipfsHash_def)

text \<open>Each step multiplies by 65599 and adds the byte: the sdbm hash.\<close>

lemma ZipfsHash_step_multiplies:
  "char_to_u64 h c + push_bit 6 x + push_bit 16 x - x = x * 65599 + char_to_u64 h c"
  by (simp add: push_bit_eq_mult)

text \<open>Where \<^verbatim>\<open>char\<close> is signed, a byte from \<^verbatim>\<open>0x80\<close> on is added sign-extended.\<close>

lemma ZipfsHash_signed_char:
  "char_signed h \<Longrightarrow> ZipfsHash_loop h 0 [0x80] = 0xFFFFFFFFFFFFFF80"
  "\<not> char_signed h \<Longrightarrow> ZipfsHash_loop h 0 [0x80] = 0x80"
  by (simp_all add: char_to_u64_def)

lemma failed_no_output:
  "failed p rw \<noteq> (r, p', Node out, w')" "failed_null p rw \<noteq> (r, p', Node out, w')"
  by (simp_all add: failed_def failed_null_def)

lemma free_and_fail_no_output:
  "free_and_fail h p Null oi w \<noteq> (r, p', Node out, w')"
  "free_and_fail h p Released oi w \<noteq> (r, p', Node out, w')"
  by (simp_all add: free_and_fail_def split: prod.splits option.splits)

lemma BuildHostPath_Some:
  "ZipfsBuildHostPath h zi nm w = (Some path, w') \<Longrightarrow>
     w_trace w' = w_trace w \<and> (\<exists>pp. hostpath zi = Some pp \<and> path = pp @ ''/'' @ nm)"
  by (auto simp: ZipfsBuildHostPath_def malloc_def split: option.splits if_splits)

lemma sys_stat_Some:
  "sys_stat h p w = (Some st, w') \<longleftrightarrow> host_stat h (w_trace w) p = Inr st \<and> w' = issue (Stat p) w"
  by (auto simp: sys_stat_def split: sum.splits)

lemma sys_lstat_Some:
  "sys_lstat h p w = (Some st, w') \<longleftrightarrow> host_lstat h (w_trace w) p = Inr st \<and> w' = issue (Lstat p) w"
  by (auto simp: sys_lstat_def split: sum.splits)

lemma sys_fstat_Some:
  "sys_fstat h fd w = (Some st, w') \<longleftrightarrow> host_fstat h (w_trace w) fd = Inr st \<and> w' = issue (Fstat fd) w"
  by (auto simp: sys_fstat_def split: sum.splits)

lemma sys_open_fd:
  "sys_open h p fl w = (fd, w') \<Longrightarrow> fd \<noteq> -1 \<Longrightarrow>
     host_open h (w_trace w) p fl = Inr fd \<and> w' = issue (Open p fl) w"
  by (auto simp: sys_open_def split: sum.splits)

lemma ZipfsCreateInfo_Some:
  "ZipfsCreateInfo h w = (r, Some zi, w') \<Longrightarrow>
     zi = \<lparr>mode = 0, filefd = -1, dirstream = None, hostpath = None\<rparr> \<and> w_trace w' = w_trace w"
  by (auto simp: ZipfsCreateInfo_def malloc_def raise_defs split: if_splits prod.splits)

lemma ZipfsFinddir_success:
  assumes "ZipfsFinddir h parent name output w = (Some 0, parent', Node out, w')"
  shows "\<exists>p nm path hst. parent = Some p \<and> name = Some nm \<and> hostpath (info_data p) = Some path \<and>
     host_stat h (w_trace w) (path @ ''/'' @ nm) = Inr hst \<and>
     info_ino out = fst (ZipfsHash h (st_dev hst) (Some (ino_bytes h (st_ino hst))) w) \<and>
     info_mode out = st_mode hst \<and> info_dev out = info_dev p \<and>
     info_data out = \<lparr>mode = st_mode hst, filefd = -1, dirstream = None, hostpath = Some (path @ ''/'' @ nm)\<rparr>"
  using assms
  apply (simp add: ZipfsFinddir_def failed_no_output free_and_fail_no_output ZipfsHash_Some Let_def
      split: option.splits if_splits prod.splits bool.splits)
  apply (auto dest!: BuildHostPath_Some ZipfsCreateInfo_Some simp: sys_stat_Some)
  done

lemma ZipfsOpen_success:
  assumes "ZipfsOpen h parent name flags omode output w = (Some 0, parent', Node out, w')"
  shows "\<exists>p nm path fd hst. parent = Some p \<and> name = Some nm \<and> hostpath (info_data p) = Some path \<and>
     host_open h (w_trace w) (path @ ''/'' @ nm) O_RDONLY = Inr fd \<and> fd \<noteq> -1 \<and>
     host_fstat h (w_trace w @ [Open (path @ ''/'' @ nm) O_RDONLY]) fd = Inr hst \<and>
     info_ino out = fst (ZipfsHash h (st_dev hst) (Some (ino_bytes h (st_ino hst))) w) \<and>
     info_mode out = st_mode hst \<and> info_dev out = info_dev p \<and>
     info_data out = \<lparr>mode = st_mode hst, filefd = fd, dirstream = None, hostpath = Some (path @ ''/'' @ nm)\<rparr>"
  using assms
  apply (simp add: ZipfsOpen_def failed_no_output free_and_fail_no_output ZipfsHash_Some Let_def
      split: option.splits if_splits prod.splits bool.splits)
  apply (auto dest!: BuildHostPath_Some ZipfsCreateInfo_Some sys_open_fd simp: sys_fstat_Some issue_def)
  done

lemma ZipfsStat_success:
  assumes "ZipfsStat h parent name st flags w = (r, res, w')" and "r \<noteq> -1 \<or> res \<noteq> None"
  shows "\<exists>p nm path hst vst. parent = Some p \<and> name = Some nm \<and> hostpath (info_data p) = Some path \<and>
     (if flags AND AT_SYMLINK_NOFOLLOW \<noteq> 0
      then host_lstat h (w_trace w) (path @ ''/'' @ nm)
      else host_stat h (w_trace w) (path @ ''/'' @ nm)) = Inr hst \<and>
     r = 0 \<and> res = Some vst \<and>
     st_ino vst = fst (ZipfsHash h (st_dev hst) (Some (ino_bytes h (st_ino hst))) w) \<and>
     st_dev vst = info_dev p \<and> st_mode vst = st_mode hst \<and> st_size vst = st_size hst"
  using assms
  apply (simp add: ZipfsStat_def stat_failed_def raise_defs ZipfsHash_Some
      split: option.splits if_splits prod.splits bool.splits)
  apply (auto dest!: BuildHostPath_Some simp: sys_stat_Some sys_lstat_Some)
  done

lemma ZipfsFstat_success:
  assumes "ZipfsFstat h info st w = (r, res, w')" and "r \<noteq> -1 \<or> res \<noteq> None"
  shows "\<exists>i hst vst. info = Some i \<and>
     (if filefd (info_data i) \<noteq> -1
      then Some (host_fstat h (w_trace w) (filefd (info_data i)))
      else map_option (host_stat h (w_trace w)) (hostpath (info_data i))) = Some (Inr hst) \<and>
     r = 0 \<and> res = Some vst \<and>
     st_ino vst = fst (ZipfsHash h (st_dev hst) (Some (ino_bytes h (st_ino hst))) w) \<and>
     st_dev vst = info_dev i \<and> st_mode vst = st_mode hst \<and> st_size vst = st_size hst"
  using assms
  apply (simp add: ZipfsFstat_def stat_failed_def raise_defs ZipfsHash_Some
      split: option.splits if_splits prod.splits bool.splits)
  apply (auto simp: sys_stat_Some sys_fstat_Some)
  done

lemma example_host_simps:
  "char_signed example_host = True"
  "big_endian example_host = False"
  "heap_garbage_null example_host = True"
  "alloc_ok example_host = (\<lambda>k. True)"
  "host_stat example_host tr = example_stat"
  "host_lstat example_host tr = example_stat"
  "host_fstat example_host tr fd = (if fd = 3 then Inr file_stat else if fd = 4 then Inr dir_stat else Inl EBADF)"
  "host_open example_host tr path fl = (if path = ''/zip/a.txt'' then Inr 3
                                 else if path = ''/zip/sub'' then Inr 4 else Inl ENOENT)"
  "host_close example_host tr fd = Inr ()"
  "host_read example_host tr fd n = Inr (take n [104, 105])"
  "host_opendir example_host tr path = (if path = ''/zip'' \<or> path = ''/zip/sub'' then Inr 1
                                  else Inl ENOENT)"
  "host_closedir example_host tr d = Inr ()"
  by (simp_all add: example_host_def)

lemma example_nodes_simps:
  "info_data example_root = \<lparr>mode = 0x41ED, filefd = -1, dirstream = None, hostpath = Some ''/zip''\<rparr>"
  "info_mode example_root = 0x41ED"
  "info_dev example_root = 7"
  "info_data example_file = \<lparr>mode = 0x81A4, filefd = -1, dirstream = None, hostpath = Some ''/zip/a.txt''\<rparr>"
  "info_mode example_file = 0x81A4"
  "info_dev example_file = 7"
  by (simp_all add: example_root_def example_file_def)

lemma S_ISDIR_examples: "S_ISDIR 0x41ED" "\<not> S_ISDIR 0x81A4"
  by (simp_all add: S_ISDIR_def S_IFMT_def S_IFDIR_def)

lemma example_lookup:
  "ZipfsFinddir example_host (Some example_root) (Some ''a.txt'') True example_world =
     (Some 0, Some (VfsAcquireInfo example_root),
      Node \<lparr>info_data = \<lparr>mode = 0x81A4, filefd = -1, dirstream = None, hostpath = Some ''/zip/a.txt''\<rparr>,
            info_name = Some ''a.txt'', info_namelen = 5, info_dev = 7,
            info_ino = ZipfsHash_loop example_host 2049 (ino_bytes example_host 1001),
            info_mode = 0x81A4, info_refcount = 1\<rparr>,
      \<lparr>w_errno = None, w_trace = [Stat ''/zip/a.txt''], w_nalloc = 4\<rparr>)"
  by (simp add: ZipfsFinddir_def example_host_simps example_nodes_simps S_ISDIR_examples
      ZipfsBuildHostPath_def malloc_def sys_stat_def example_stat_def file_stat_def issue_def
      ZipfsCreateInfo_def VfsCreateInfo_def ZipfsHash_Some example_world_def)

lemma flag_simps:
  "O_RDONLY AND O_ACCMODE = O_RDONLY"
  "O_RDONLY AND (O_CREAT OR O_TRUNC OR O_APPEND) = 0"
  "O_WRONLY AND O_ACCMODE \<noteq> O_RDONLY"
  "(0::u32) AND AT_SYMLINK_NOFOLLOW = 0"
  by (simp_all add: O_RDONLY_def O_ACCMODE_def O_WRONLY_def)

lemma example_open:
  "ZipfsOpen example_host (Some example_root) (Some ''a.txt'') O_RDONLY 0 True example_world =
     (Some 0, Some (VfsAcquireInfo example_root),
      Node \<lparr>info_data = \<lparr>mode = 0x81A4, filefd = 3, dirstream = None, hostpath = Some ''/zip/a.txt''\<rparr>,
            info_name = Some ''a.txt'', info_namelen = 5, info_dev = 7,
            info_ino = ZipfsHash_loop example_host 2049 (ino_bytes example_host 1001),
            info_mode = 0x81A4, info_refcount = 1\<rparr>,
      \<lparr>w_errno = None, w_trace = [Open ''/zip/a.txt'' O_RDONLY, Fstat 3], w_nalloc = 4\<rparr>)"
  by (simp add: ZipfsOpen_def example_host_simps example_nodes_simps S_ISDIR_examples flag_simps
      ZipfsBuildHostPath_def malloc_def sys_open_def sys_fstat_def file_stat_def issue_def
      ZipfsCreateInfo_def VfsCreateInfo_def ZipfsHash_Some example_world_def)

lemma example_stat_call:
  "ZipfsStat example_host (Some example_root) (Some ''a.txt'') True 0 example_world =
     (0, Some \<lparr>st_dev = 7, st_ino = ZipfsHash_loop example_host 2049 (ino_bytes example_host 1001),
               st_mode = 0x81A4, st_size = 2\<rparr>,
      \<lparr>w_errno = None, w_trace = [Stat ''/zip/a.txt''], w_nalloc = 1\<rparr>)"
  by (simp add: ZipfsStat_def example_host_simps example_nodes_simps flag_simps
      ZipfsBuildHostPath_def malloc_def sys_stat_def example_stat_def file_stat_def issue_def
      ZipfsHash_Some example_world_def)

lemma example_fstat:
  "ZipfsFstat example_host (Some example_file) True example_world =
     (0, Some \<lparr>st_dev = 7, st_ino = ZipfsHash_loop example_host 2049 (ino_bytes example_host 1001),
               st_mode = 0x81A4, st_size = 2\<rparr>,
      \<lparr>w_errno = None, w_trace = [Stat ''/zip/a.txt''], w_nalloc = 0\<rparr>)"
  by (simp add: ZipfsFstat_def example_host_simps example_nodes_simps
      sys_stat_def example_stat_def file_stat_def issue_def
      ZipfsHash_Some example_world_def)

subsection \<open>The synthetic inode\<close>

text \<open>
  Claim C1, as amended. \<open>ZipfsHash\<close> is a function of its seed and bytes alone, and
  leaves the world as it is: on a buffer it returns \<open>h = seed; for each byte b in order:
  h = v + (h<<6) + (h<<16) - h\<close>, where \<open>v\<close> is \<open>b\<close> read as a C \<^verbatim>\<open>char\<close>, that is the
  value of the byte, less 256 where \<^verbatim>\<open>char\<close> is signed and the byte is \<^verbatim>\<open>0x80\<close> or more.
  So the spec's formula, with \<open>b\<close> the value of the byte, holds where \<^verbatim>\<open>char\<close> is
  unsigned or every byte is below \<^verbatim>\<open>0x80\<close>. Lookup, open, stat and fstat all derive the
  virtual inode by \<open>ZipfsHash\<close> from the device and the inode bytes of the host's answer,
  so one host (device, inode) pair gives one virtual inode.
\<close>

theorem ZipfsHash_rolling_hash:
  "ZipfsHash h seed (Some bs) w =
     (fold (\<lambda>b. spec_synth_step
                   (if char_signed h \<and> 0x80 \<le> b then ucast b - 0x100 else ucast b)) bs seed,
      w) \<and>
   (\<not> char_signed h \<or> (\<forall>b\<in>set bs. b < 0x80) \<longrightarrow>
      ZipfsHash h seed (Some bs) w = (spec_synth seed bs, w)) \<and>
   (ZipfsFinddir h parent name outp wa = (Some 0, parent', Node out, wa') \<longrightarrow>
      (\<exists>p nm path hst. parent = Some p \<and> name = Some nm \<and> hostpath (info_data p) = Some path \<and>
         host_stat h (w_trace wa) (path @ ''/'' @ nm) = Inr hst \<and>
         info_ino out = fst (ZipfsHash h (st_dev hst) (Some (ino_bytes h (st_ino hst))) wa))) \<and>
   (ZipfsOpen h oparent oname flags omode ooutp wb = (Some 0, oparent', Node oout, wb') \<longrightarrow>
      (\<exists>p nm path fd hst. oparent = Some p \<and> oname = Some nm \<and> hostpath (info_data p) = Some path \<and>
         host_open h (w_trace wb) (path @ ''/'' @ nm) O_RDONLY = Inr fd \<and>
         host_fstat h (w_trace wb @ [Open (path @ ''/'' @ nm) O_RDONLY]) fd = Inr hst \<and>
         info_ino oout = fst (ZipfsHash h (st_dev hst) (Some (ino_bytes h (st_ino hst))) wb))) \<and>
   (ZipfsStat h sparent sname st sflags wc = (r, Some vst, wc') \<longrightarrow>
      (\<exists>p nm path hst. sparent = Some p \<and> sname = Some nm \<and> hostpath (info_data p) = Some path \<and>
         (if sflags AND AT_SYMLINK_NOFOLLOW \<noteq> 0
          then host_lstat h (w_trace wc) (path @ ''/'' @ nm)
          else host_stat h (w_trace wc) (path @ ''/'' @ nm)) = Inr hst \<and>
         st_ino vst = fst (ZipfsHash h (st_dev hst) (Some (ino_bytes h (st_ino hst))) wc))) \<and>
   (ZipfsFstat h info fst' wd = (fr, Some fvst, wd') \<longrightarrow>
      (\<exists>i hst. info = Some i \<and>
         (if filefd (info_data i) \<noteq> -1
          then Some (host_fstat h (w_trace wd) (filefd (info_data i)))
          else map_option (host_stat h (w_trace wd)) (hostpath (info_data i))) = Some (Inr hst) \<and>
         st_ino fvst = fst (ZipfsHash h (st_dev hst) (Some (ino_bytes h (st_ino hst))) wd)))"
proof (intro conjI impI)
  show "ZipfsHash h seed (Some bs) w =
     (fold (\<lambda>b. spec_synth_step
                   (if char_signed h \<and> 0x80 \<le> b then ucast b - 0x100 else ucast b)) bs seed,
      w)"
    by (simp only: ZipfsHash_Some ZipfsHash_loop_fold)
next
  assume "\<not> char_signed h \<or> (\<forall>b\<in>set bs. b < 0x80)"
  from ZipfsHash_loop_plain[OF this]
  show "ZipfsHash h seed (Some bs) w = (spec_synth seed bs, w)"
    by (simp add: ZipfsHash_Some)
next
  assume "ZipfsFinddir h parent name outp wa = (Some 0, parent', Node out, wa')"
  from ZipfsFinddir_success[OF this]
  show "\<exists>p nm path hst. parent = Some p \<and> name = Some nm \<and> hostpath (info_data p) = Some path \<and>
         host_stat h (w_trace wa) (path @ ''/'' @ nm) = Inr hst \<and>
         info_ino out = fst (ZipfsHash h (st_dev hst) (Some (ino_bytes h (st_ino hst))) wa)"
    by blast
next
  assume "ZipfsOpen h oparent oname flags omode ooutp wb = (Some 0, oparent', Node oout, wb')"
  from ZipfsOpen_success[OF this]
  show "\<exists>p nm path fd hst. oparent = Some p \<and> oname = Some nm \<and> hostpath (info_data p) = Some path \<and>
         host_open h (w_trace wb) (path @ ''/'' @ nm) O_RDONLY = Inr fd \<and>
         host_fstat h (w_trace wb @ [Open (path @ ''/'' @ nm) O_RDONLY]) fd = Inr hst \<and>
         info_ino oout = fst (ZipfsHash h (st_dev hst) (Some (ino_bytes h (st_ino hst))) wb)"
    by blast
next
  assume ev: "ZipfsStat h sparent sname st sflags wc = (r, Some vst, wc')"
  have "r \<noteq> -1 \<or> Some vst \<noteq> None" by simp
  from ZipfsStat_success[OF ev this]
  show "\<exists>p nm path hst. sparent = Some p \<and> sname = Some nm \<and> hostpath (info_data p) = Some path \<and>
         (if sflags AND AT_SYMLINK_NOFOLLOW \<noteq> 0
          then host_lstat h (w_trace wc) (path @ ''/'' @ nm)
          else host_stat h (w_trace wc) (path @ ''/'' @ nm)) = Inr hst \<and>
         st_ino vst = fst (ZipfsHash h (st_dev hst) (Some (ino_bytes h (st_ino hst))) wc)"
    by blast
next
  assume ev: "ZipfsFstat h info fst' wd = (fr, Some fvst, wd')"
  have "fr \<noteq> -1 \<or> Some fvst \<noteq> None" by simp
  from ZipfsFstat_success[OF ev this]
  show "\<exists>i hst. info = Some i \<and>
         (if filefd (info_data i) \<noteq> -1
          then Some (host_fstat h (w_trace wd) (filefd (info_data i)))
          else map_option (host_stat h (w_trace wd)) (hostpath (info_data i))) = Some (Inr hst) \<and>
         st_ino fvst = fst (ZipfsHash h (st_dev hst) (Some (ino_bytes h (st_ino hst))) wd)"
    by blast
qed

theorem ZipfsHash_rolling_hash_witness:
  "ZipfsHash example_host 2049 (Some [1, 2]) example_world =
     (spec_synth 2049 [1, 2], example_world) \<and>
   ZipfsHash (example_host\<lparr>char_signed := False\<rparr>) 0 (Some [0x80]) example_world =
     (spec_synth 0 [0x80], example_world) \<and>
   (\<exists>p' out w'. ZipfsFinddir example_host (Some example_root) (Some ''a.txt'') True example_world = (Some 0, p', Node out, w') \<and>
       info_ino out = fst (ZipfsHash example_host 2049 (Some (ino_bytes example_host 1001)) example_world)) \<and>
   (\<exists>p' out w'. ZipfsOpen example_host (Some example_root) (Some ''a.txt'') O_RDONLY 0 True example_world = (Some 0, p', Node out, w') \<and>
       info_ino out = fst (ZipfsHash example_host 2049 (Some (ino_bytes example_host 1001)) example_world)) \<and>
   (\<exists>r vst w'. ZipfsStat example_host (Some example_root) (Some ''a.txt'') True 0 example_world = (r, Some vst, w') \<and>
       st_ino vst = fst (ZipfsHash example_host 2049 (Some (ino_bytes example_host 1001)) example_world)) \<and>
   (\<exists>r vst w'. ZipfsFstat example_host (Some example_file) True example_world = (r, Some vst, w') \<and>
       st_ino vst = fst (ZipfsHash example_host 2049 (Some (ino_bytes example_host 1001)) example_world))"
proof -
  obtain p' out w' where ev1:
    "ZipfsFinddir example_host (Some example_root) (Some ''a.txt'') True example_world = (Some 0, p', Node out, w')"
    by (simp add: example_lookup)
  obtain op' oout ow' where ev2:
    "ZipfsOpen example_host (Some example_root) (Some ''a.txt'') O_RDONLY 0 True example_world = (Some 0, op', Node oout, ow')"
    by (simp add: example_open)
  obtain r vst sw' where ev3:
    "ZipfsStat example_host (Some example_root) (Some ''a.txt'') True 0 example_world = (r, Some vst, sw')"
    by (simp add: example_stat_call)
  obtain fr fvst fw' where ev4:
    "ZipfsFstat example_host (Some example_file) True example_world = (fr, Some fvst, fw')"
    by (simp add: example_fstat)
  have unsigned_host:
    "ZipfsHash (example_host\<lparr>char_signed := False\<rparr>) 0 (Some [0x80]) example_world =
       (spec_synth 0 [0x80], example_world)"
    using ZipfsHash_rolling_hash[where h="example_host\<lparr>char_signed := False\<rparr>" and seed=0
        and bs="[0x80]" and w=example_world, THEN conjunct2, THEN conjunct1]
    by simp
  from ZipfsHash_rolling_hash[where h=example_host and seed=2049 and bs="[1,2]" and w=example_world
      and parent="Some example_root" and name="Some ''a.txt''" and outp=True and wa=example_world
      and parent'=p' and out=out and wa'=w'
      and oparent="Some example_root" and oname="Some ''a.txt''" and flags=O_RDONLY and omode=0
      and ooutp=True and wb=example_world and oparent'=op' and oout=oout and wb'=ow'
      and sparent="Some example_root" and sname="Some ''a.txt''" and st=True and sflags=0
      and wc=example_world and r=r and vst=vst and wc'=sw'
      and info="Some example_file" and fst'=True and wd=example_world and fr=fr and fvst=fvst and wd'=fw']
    ev1 ev2 ev3 ev4 unsigned_host
  show ?thesis
    by (auto simp: example_host_simps example_nodes_simps example_stat_def file_stat_def flag_simps
        example_world_def split: if_splits)
qed

text \<open>
  Claim C1 as stated, with \<open>b\<close> the value of the byte, fails where \<^verbatim>\<open>char\<close> is signed:
  the byte \<^verbatim>\<open>0x80\<close> enters the hash as -128.
\<close>

theorem signed_char_byte_is_sign_extended:
  "char_signed example_host \<and>
   fst (ZipfsHash example_host 0 (Some [0x80]) example_world) = 0xFFFFFFFFFFFFFF80 \<and>
   spec_synth 0 [0x80] = 0x80 \<and>
   fst (ZipfsHash example_host 0 (Some [0x80]) example_world) \<noteq> spec_synth 0 [0x80]"
  by (simp add: ZipfsHash_def char_to_u64_def example_host_simps spec_synth_def spec_synth_step_def)

subsection \<open>Stat results\<close>

text \<open>
  Claim C3. A successful \<open>ZipfsStat\<close> or \<open>ZipfsFstat\<close> (one that does not return -1)
  hands back the host's answer with its inode replaced by \<open>ZipfsHash\<close> of the host's
  device and inode bytes, and its device replaced by the \<^verbatim>\<open>dev\<close> of the node, the
  mount's virtual device id that every node made by a lookup or an open takes over from
  its parent.
\<close>

theorem stat_results_are_virtual:
  "(ZipfsStat h parent name st flags w = (r, res, w') \<and> r \<noteq> -1 \<longrightarrow>
      (\<exists>p nm path hst vst. parent = Some p \<and> name = Some nm \<and>
         hostpath (info_data p) = Some path \<and>
         (if flags AND AT_SYMLINK_NOFOLLOW \<noteq> 0
          then host_lstat h (w_trace w) (path @ ''/'' @ nm)
          else host_stat h (w_trace w) (path @ ''/'' @ nm)) = Inr hst \<and>
         res = Some vst \<and>
         st_ino vst = fst (ZipfsHash h (st_dev hst) (Some (ino_bytes h (st_ino hst))) w) \<and>
         st_dev vst = info_dev p)) \<and>
   (ZipfsFstat h info fst' wd = (fr, fres, wd') \<and> fr \<noteq> -1 \<longrightarrow>
      (\<exists>i hst vst. info = Some i \<and>
         (if filefd (info_data i) \<noteq> -1
          then Some (host_fstat h (w_trace wd) (filefd (info_data i)))
          else map_option (host_stat h (w_trace wd)) (hostpath (info_data i))) = Some (Inr hst) \<and>
         fres = Some vst \<and>
         st_ino vst = fst (ZipfsHash h (st_dev hst) (Some (ino_bytes h (st_ino hst))) wd) \<and>
         st_dev vst = info_dev i)) \<and>
   (ZipfsFinddir h lparent lname outp wa = (Some 0, lparent', Node out, wa') \<longrightarrow>
      (\<exists>p. lparent = Some p \<and> info_dev out = info_dev p)) \<and>
   (ZipfsOpen h oparent oname oflags omode ooutp wb = (Some 0, oparent', Node oout, wb') \<longrightarrow>
      (\<exists>p. oparent = Some p \<and> info_dev oout = info_dev p))"
proof (intro conjI impI)
  assume "ZipfsStat h parent name st flags w = (r, res, w') \<and> r \<noteq> -1"
  then have ev: "ZipfsStat h parent name st flags w = (r, res, w')" and ok: "r \<noteq> -1 \<or> res \<noteq> None"
    by simp_all
  from ZipfsStat_success[OF ev ok]
  show "\<exists>p nm path hst vst. parent = Some p \<and> name = Some nm \<and>
         hostpath (info_data p) = Some path \<and>
         (if flags AND AT_SYMLINK_NOFOLLOW \<noteq> 0
          then host_lstat h (w_trace w) (path @ ''/'' @ nm)
          else host_stat h (w_trace w) (path @ ''/'' @ nm)) = Inr hst \<and>
         res = Some vst \<and>
         st_ino vst = fst (ZipfsHash h (st_dev hst) (Some (ino_bytes h (st_ino hst))) w) \<and>
         st_dev vst = info_dev p"
    by blast
next
  assume "ZipfsFstat h info fst' wd = (fr, fres, wd') \<and> fr \<noteq> -1"
  then have ev: "ZipfsFstat h info fst' wd = (fr, fres, wd')" and ok: "fr \<noteq> -1 \<or> fres \<noteq> None"
    by simp_all
  from ZipfsFstat_success[OF ev ok]
  show "\<exists>i hst vst. info = Some i \<and>
         (if filefd (info_data i) \<noteq> -1
          then Some (host_fstat h (w_trace wd) (filefd (info_data i)))
          else map_option (host_stat h (w_trace wd)) (hostpath (info_data i))) = Some (Inr hst) \<and>
         fres = Some vst \<and>
         st_ino vst = fst (ZipfsHash h (st_dev hst) (Some (ino_bytes h (st_ino hst))) wd) \<and>
         st_dev vst = info_dev i"
    by blast
next
  assume "ZipfsFinddir h lparent lname outp wa = (Some 0, lparent', Node out, wa')"
  from ZipfsFinddir_success[OF this]
  show "\<exists>p. lparent = Some p \<and> info_dev out = info_dev p" by blast
next
  assume "ZipfsOpen h oparent oname oflags omode ooutp wb = (Some 0, oparent', Node oout, wb')"
  from ZipfsOpen_success[OF this]
  show "\<exists>p. oparent = Some p \<and> info_dev oout = info_dev p" by blast
qed

theorem stat_results_are_virtual_witness:
  "(\<exists>vst w'. ZipfsStat example_host (Some example_root) (Some ''a.txt'') True 0 example_world = (0, Some vst, w') \<and>
      st_ino vst = fst (ZipfsHash example_host 2049 (Some (ino_bytes example_host 1001)) example_world) \<and>
      st_dev vst = 7) \<and>
   (\<exists>vst w'. ZipfsFstat example_host (Some example_file) True example_world = (0, Some vst, w') \<and>
      st_ino vst = fst (ZipfsHash example_host 2049 (Some (ino_bytes example_host 1001)) example_world) \<and>
      st_dev vst = 7) \<and>
   (\<exists>p' out w'. ZipfsFinddir example_host (Some example_root) (Some ''a.txt'') True example_world = (Some 0, p', Node out, w') \<and>
      info_dev out = 7) \<and>
   (\<exists>p' out w'. ZipfsOpen example_host (Some example_root) (Some ''a.txt'') O_RDONLY 0 True example_world = (Some 0, p', Node out, w') \<and>
      info_dev out = 7)"
proof -
  obtain p' out w' where ev1:
    "ZipfsFinddir example_host (Some example_root) (Some ''a.txt'') True example_world = (Some 0, p', Node out, w')"
    by (simp add: example_lookup)
  obtain op' oout ow' where ev2:
    "ZipfsOpen example_host (Some example_root) (Some ''a.txt'') O_RDONLY 0 True example_world = (Some 0, op', Node oout, ow')"
    by (simp add: example_open)
  obtain res sw' where ev3:
    "ZipfsStat example_host (Some example_root) (Some ''a.txt'') True 0 example_world = (0, res, sw')"
    by (simp add: example_stat_call)
  obtain fres fw' where ev4:
    "ZipfsFstat example_host (Some example_file) True example_world = (0, fres, fw')"
    by (simp add: example_fstat)
  from stat_results_are_virtual[where h=example_host
      and parent="Some example_root" and name="Some ''a.txt''" and st=True and flags=0
      and w=example_world and r=0 and res=res and w'=sw'
      and info="Some example_file" and fst'=True and wd=example_world and fr=0 and fres=fres and wd'=fw'
      and lparent="Some example_root" and lname="Some ''a.txt''" and outp=True and wa=example_world
      and lparent'=p' and out=out and wa'=w'
      and oparent="Some example_root" and oname="Some ''a.txt''" and oflags=O_RDONLY and omode=0
      and ooutp=True and wb=example_world and oparent'=op' and oout=oout and wb'=ow']
    ev1 ev2 ev3 ev4
  show ?thesis
    by (auto simp: example_host_simps example_nodes_simps example_stat_def file_stat_def flag_simps
        example_world_def split: if_splits)
qed

subsection \<open>Write intents\<close>

text \<open>
  Claim C2, as amended. Under a parent that is a directory, an open whose access mode is
  not read-only, or that carries \<^verbatim>\<open>O_CREAT\<close>, \<^verbatim>\<open>O_TRUNC\<close> or \<^verbatim>\<open>O_APPEND\<close>, returns -1
  with \<^verbatim>\<open>EACCES\<close> and changes nothing else: no host call, no allocation, \<^verbatim>\<open>*output\<close>
  as it was. Under a parent that is not a directory every open, whatever its flags,
  returns -1 with \<^verbatim>\<open>ENOTDIR\<close> and changes nothing else. An access check with the write
  bit returns -1 with \<^verbatim>\<open>EACCES\<close> under every parent, again with nothing else changed.
\<close>

theorem write_intent_denied:
  "(S_ISDIR (info_mode p) \<and>
    (flags AND O_ACCMODE \<noteq> O_RDONLY \<or> flags AND (O_CREAT OR O_TRUNC OR O_APPEND) \<noteq> 0) \<longrightarrow>
      ZipfsOpen h (Some p) (Some nm) flags omode True w =
        (Some (-1), Some p, Unchanged, w\<lparr>w_errno := Some EACCES\<rparr>)) \<and>
   (\<not> S_ISDIR (info_mode f) \<longrightarrow>
      ZipfsOpen h (Some f) (Some fnm) fflags fmode True wn =
        (Some (-1), Some f, Unchanged, wn\<lparr>w_errno := Some ENOTDIR\<rparr>)) \<and>
   (amode AND W_OK \<noteq> 0 \<longrightarrow>
      ZipfsAccess h (Some q) (Some anm) amode aflags wa = (-1, wa\<lparr>w_errno := Some EACCES\<rparr>))"
  by (simp add: ZipfsOpen_def ZipfsAccess_def failed_def raise_defs)

theorem write_intent_denied_witness:
  "ZipfsOpen example_host (Some example_root) (Some ''a.txt'') O_WRONLY 0 True example_world =
     (Some (-1), Some example_root, Unchanged, example_world\<lparr>w_errno := Some EACCES\<rparr>) \<and>
   ZipfsOpen example_host (Some example_file) (Some ''x'') O_WRONLY 0 True example_world =
     (Some (-1), Some example_file, Unchanged, example_world\<lparr>w_errno := Some ENOTDIR\<rparr>) \<and>
   ZipfsAccess example_host (Some example_root) (Some ''a.txt'') W_OK 0 example_world =
     (-1, example_world\<lparr>w_errno := Some EACCES\<rparr>)"
  using write_intent_denied[where p=example_root and flags=O_WRONLY and h=example_host
      and nm="''a.txt''" and omode=0 and w=example_world
      and f=example_file and fnm="''x''" and fflags=O_WRONLY and fmode=0 and wn=example_world
      and amode=W_OK and q=example_root
      and anm="''a.txt''" and aflags=0 and wa=example_world]
  by (simp add: example_nodes_simps S_ISDIR_examples flag_simps W_OK_def)

text \<open>
  Claim C2 as stated fails where the parent is not a directory: the check of the parent
  comes first, and the open for writing is answered with \<^verbatim>\<open>ENOTDIR\<close>.
\<close>

theorem write_on_file_parent_is_ENOTDIR:
  "\<not> S_ISDIR (info_mode example_file) \<and>
   O_WRONLY AND O_ACCMODE \<noteq> O_RDONLY \<and>
   (case ZipfsOpen example_host (Some example_file) (Some ''x'') O_WRONLY 0 True example_world of
      (r, p', out, w') \<Rightarrow>
        r = Some (-1) \<and> w_errno w' = Some ENOTDIR \<and> w_errno w' \<noteq> Some EACCES)"
  by (simp add: ZipfsOpen_def failed_def raise_defs example_nodes_simps S_ISDIR_examples flag_simps)

subsection \<open>Nodes without a descriptor\<close>

text \<open>
  Claim C4. On a node whose payload has no descriptor (\<open>filefd = -1\<close>), read, vectored
  read, positioned read (each given a buffer), seek and close return -1 with \<^verbatim>\<open>EBADF\<close> and
  change nothing else, so no host call is issued; without a buffer the reads fail as
  well, and issue no host call either. A close that reaches the host clears the
  descriptor whatever the host answers, so that a second close and a read on the node
  it leaves fail with \<^verbatim>\<open>EBADF\<close>.
\<close>

theorem no_descriptor_is_EBADF:
  "(filefd (info_data i) = -1 \<longrightarrow>
      ZipfsRead h (Some i) True n w = (-1, [], w\<lparr>w_errno := Some EBADF\<rparr>) \<and>
      ZipfsReadv h (Some i) (Some iov) cnt w = (-1, [], w\<lparr>w_errno := Some EBADF\<rparr>) \<and>
      ZipfsPread h (Some i) True n off w = (-1, [], w\<lparr>w_errno := Some EBADF\<rparr>) \<and>
      ZipfsSeek h (Some i) off whence w = (-1, w\<lparr>w_errno := Some EBADF\<rparr>) \<and>
      ZipfsClose h (Some i) w = (-1, Some i, w\<lparr>w_errno := Some EBADF\<rparr>) \<and>
      w_trace (snd (snd (ZipfsRead h (Some i) buf n w))) = w_trace w \<and>
      w_trace (snd (snd (ZipfsReadv h (Some i) iovp cnt w))) = w_trace w \<and>
      w_trace (snd (snd (ZipfsPread h (Some i) buf n off w))) = w_trace w) \<and>
   (filefd (info_data j) \<noteq> -1 \<longrightarrow>
      (\<exists>r k wa'. ZipfsClose h (Some j) wa = (r, Some k, wa') \<and>
         w_trace wa' = w_trace wa @ [Close (filefd (info_data j))] \<and>
         filefd (info_data k) = -1 \<and>
         ZipfsClose h (Some k) wa' = (-1, Some k, wa'\<lparr>w_errno := Some EBADF\<rparr>) \<and>
         ZipfsRead h (Some k) True n wa' = (-1, [], wa'\<lparr>w_errno := Some EBADF\<rparr>)))"
proof (rule conjI; rule impI)
  assume "filefd (info_data i) = -1"
  then show
     "ZipfsRead h (Some i) True n w = (-1, [], w\<lparr>w_errno := Some EBADF\<rparr>) \<and>
      ZipfsReadv h (Some i) (Some iov) cnt w = (-1, [], w\<lparr>w_errno := Some EBADF\<rparr>) \<and>
      ZipfsPread h (Some i) True n off w = (-1, [], w\<lparr>w_errno := Some EBADF\<rparr>) \<and>
      ZipfsSeek h (Some i) off whence w = (-1, w\<lparr>w_errno := Some EBADF\<rparr>) \<and>
      ZipfsClose h (Some i) w = (-1, Some i, w\<lparr>w_errno := Some EBADF\<rparr>) \<and>
      w_trace (snd (snd (ZipfsRead h (Some i) buf n w))) = w_trace w \<and>
      w_trace (snd (snd (ZipfsReadv h (Some i) iovp cnt w))) = w_trace w \<and>
      w_trace (snd (snd (ZipfsPread h (Some i) buf n off w))) = w_trace w"
    by (simp add: ZipfsRead_def ZipfsReadv_def ZipfsPread_def ZipfsSeek_def ZipfsClose_def
        read_failed_def raise_defs split: option.splits)
next
  assume open_fd: "filefd (info_data j) \<noteq> -1"
  define k where "k = j\<lparr>info_data := (info_data j)\<lparr>filefd := -1\<rparr>\<rparr>"
  obtain r wa' where cl: "sys_close h (filefd (info_data j)) wa = (r, wa')"
    by (cases "sys_close h (filefd (info_data j)) wa")
  have tr: "w_trace wa' = w_trace wa @ [Close (filefd (info_data j))]"
    using cl by (auto simp: sys_close_def issue_def host_fail_def split: sum.splits)
  have "ZipfsClose h (Some j) wa = (r, Some k, wa')"
    using open_fd cl by (simp add: ZipfsClose_def k_def)
  moreover have "filefd (info_data k) = -1"
    by (simp add: k_def)
  moreover have "ZipfsClose h (Some k) wa' = (-1, Some k, wa'\<lparr>w_errno := Some EBADF\<rparr>)"
    by (simp add: ZipfsClose_def k_def raise_defs)
  moreover have "ZipfsRead h (Some k) True n wa' = (-1, [], wa'\<lparr>w_errno := Some EBADF\<rparr>)"
    by (simp add: ZipfsRead_def k_def read_failed_def raise_defs)
  ultimately show "\<exists>r k wa'. ZipfsClose h (Some j) wa = (r, Some k, wa') \<and>
         w_trace wa' = w_trace wa @ [Close (filefd (info_data j))] \<and>
         filefd (info_data k) = -1 \<and>
         ZipfsClose h (Some k) wa' = (-1, Some k, wa'\<lparr>w_errno := Some EBADF\<rparr>) \<and>
         ZipfsRead h (Some k) True n wa' = (-1, [], wa'\<lparr>w_errno := Some EBADF\<rparr>)"
    using tr by blast
qed

theorem no_descriptor_is_EBADF_witness:
  "ZipfsRead example_host (Some example_file) True 2 example_world =
     (-1, [], example_world\<lparr>w_errno := Some EBADF\<rparr>) \<and>
   ZipfsClose example_host (Some example_file) example_world =
     (-1, Some example_file, example_world\<lparr>w_errno := Some EBADF\<rparr>) \<and>
   (\<exists>r k wa'. ZipfsClose example_host
        (Some (example_file\<lparr>info_data := (info_data example_file)\<lparr>filefd := 3\<rparr>\<rparr>)) example_world =
        (r, Some k, wa') \<and>
      w_trace wa' = [Close 3] \<and>
      ZipfsRead example_host (Some k) True 2 wa' = (-1, [], wa'\<lparr>w_errno := Some EBADF\<rparr>))"
  using no_descriptor_is_EBADF[where i=example_file and h=example_host and n=2 and w=example_world
      and iov="[]" and cnt=0 and off=0 and whence=0 and buf=True and iovp="Some []"
      and j="example_file\<lparr>info_data := (info_data example_file)\<lparr>filefd := 3\<rparr>\<rparr>"
      and wa=example_world]
  by (auto simp: example_nodes_simps example_world_def)

subsection \<open>Nodes without a directory stream\<close>

text \<open>
  Claim C9, as amended. On a node whose payload has no directory stream none of
  \<open>ZipfsReaddir\<close>, \<open>ZipfsRewinddir\<close>, \<open>ZipfsSeekdir\<close> and \<open>ZipfsTelldir\<close> calls the host.
  \<open>ZipfsTelldir\<close> returns -1 with \<^verbatim>\<open>EBADF\<close>; \<open>ZipfsRewinddir\<close> and \<open>ZipfsSeekdir\<close>, which
  return no value, do nothing at all; \<open>ZipfsReaddir\<close> returns no entry.
\<close>

theorem no_stream_no_host_call:
  "dirstream (info_data i) = None \<longrightarrow>
     ZipfsTelldir h (Some i) w = (-1, w\<lparr>w_errno := Some EBADF\<rparr>) \<and>
     ZipfsRewinddir h (Some i) w = w \<and>
     ZipfsSeekdir h (Some i) loc w = w \<and>
     fst (ZipfsReaddir h (Some i) w) = None \<and>
     w_trace (snd (ZipfsReaddir h (Some i) w)) = w_trace w"
  by (simp add: ZipfsTelldir_def ZipfsRewinddir_def ZipfsSeekdir_def ZipfsReaddir_def raise_defs)

theorem no_stream_no_host_call_witness:
  "ZipfsTelldir example_host (Some example_root) example_world =
     (-1, example_world\<lparr>w_errno := Some EBADF\<rparr>) \<and>
   ZipfsRewinddir example_host (Some example_root) example_world = example_world \<and>
   ZipfsSeekdir example_host (Some example_root) 5 example_world = example_world \<and>
   fst (ZipfsReaddir example_host (Some example_root) example_world) = None \<and>
   w_trace (snd (ZipfsReaddir example_host (Some example_root) example_world)) = []"
  using no_stream_no_host_call[where i=example_root and h=example_host and w=example_world and loc=5]
  by (simp add: example_nodes_simps example_world_def)

text \<open>
  Claim C9 as stated fails for the operations that return no value: on a node without
  a stream \<open>ZipfsRewinddir\<close> and \<open>ZipfsSeekdir\<close> leave \<^verbatim>\<open>errno\<close> as it was, here unset.
\<close>

theorem rewinddir_without_stream_reports_nothing:
  "dirstream (info_data example_root) = None \<and>
   w_errno (ZipfsRewinddir example_host (Some example_root) example_world) = None \<and>
   w_errno (ZipfsRewinddir example_host (Some example_root) example_world) \<noteq> Some EBADF \<and>
   w_errno (ZipfsSeekdir example_host (Some example_root) 5 example_world) \<noteq> Some EBADF"
  by (simp add: ZipfsRewinddir_def ZipfsSeekdir_def example_nodes_simps example_world_def)

subsection \<open>Fstat without a descriptor\<close>

text \<open>
  Claim C10. On a node without a descriptor but with a host path, \<open>ZipfsFstat\<close> does
  not fail with \<^verbatim>\<open>EBADF\<close>: it issues one host call, \<^verbatim>\<open>stat\<close> of the host path, and
  succeeds with the virtualised answer where the host's stat succeeds (a failure of the
  host's stat is passed on). The adapter's own \<^verbatim>\<open>EBADF\<close>, raised without a host call, is
  returned exactly when the payload has neither a descriptor nor a host path.
\<close>

theorem fstat_falls_back_to_hostpath:
  "(filefd (info_data i) = -1 \<and> hostpath (info_data i) = Some path \<longrightarrow>
      w_trace (snd (snd (ZipfsFstat h (Some i) True w))) = w_trace w @ [Stat path] \<and>
      (host_stat h (w_trace w) path = Inr hst \<longrightarrow>
         ZipfsFstat h (Some i) True w =
           (0,
            Some (hst\<lparr>st_ino := fst (ZipfsHash h (st_dev hst) (Some (ino_bytes h (st_ino hst))) w),
                       st_dev := info_dev i\<rparr>),
            issue (Stat path) w)) \<and>
      (host_stat h (w_trace w) path = Inl e \<longrightarrow>
         ZipfsFstat h (Some i) True w = (-1, None, host_fail (Stat path) e w))) \<and>
   (ZipfsFstat h (Some j) True wa = (-1, None, wa\<lparr>w_errno := Some EBADF\<rparr>) \<longleftrightarrow>
      filefd (info_data j) = -1 \<and> hostpath (info_data j) = None)"
proof -
  have neq: "w_trace x @ [c] \<noteq> w_trace x" for x :: world and c
    by simp
  have a: "filefd (info_data i) = -1 \<and> hostpath (info_data i) = Some path \<longrightarrow>
      w_trace (snd (snd (ZipfsFstat h (Some i) True w))) = w_trace w @ [Stat path] \<and>
      (host_stat h (w_trace w) path = Inr hst \<longrightarrow>
         ZipfsFstat h (Some i) True w =
           (0,
            Some (hst\<lparr>st_ino := fst (ZipfsHash h (st_dev hst) (Some (ino_bytes h (st_ino hst))) w),
                       st_dev := info_dev i\<rparr>),
            issue (Stat path) w)) \<and>
      (host_stat h (w_trace w) path = Inl e \<longrightarrow>
         ZipfsFstat h (Some i) True w = (-1, None, host_fail (Stat path) e w))"
    by (auto simp: ZipfsFstat_def sys_stat_def ZipfsHash_Some issue_def host_fail_def
        split: sum.splits)
  have b: "ZipfsFstat h (Some j) True wa = (-1, None, wa\<lparr>w_errno := Some EBADF\<rparr>) \<longleftrightarrow>
      filefd (info_data j) = -1 \<and> hostpath (info_data j) = None"
  proof
    assume ev: "ZipfsFstat h (Some j) True wa = (-1, None, wa\<lparr>w_errno := Some EBADF\<rparr>)"
    have "w_trace (snd (snd (ZipfsFstat h (Some j) True wa))) = w_trace wa"
      by (simp add: ev)
    then show "filefd (info_data j) = -1 \<and> hostpath (info_data j) = None"
      by (auto simp: ZipfsFstat_def sys_stat_def sys_fstat_def ZipfsHash_Some issue_def
          host_fail_def stat_failed_def raise_defs split: sum.splits option.splits if_splits)
  next
    assume "filefd (info_data j) = -1 \<and> hostpath (info_data j) = None"
    then show "ZipfsFstat h (Some j) True wa = (-1, None, wa\<lparr>w_errno := Some EBADF\<rparr>)"
      by (simp add: ZipfsFstat_def stat_failed_def raise_defs)
  qed
  from a b show ?thesis by blast
qed

theorem fstat_falls_back_to_hostpath_witness:
  "ZipfsFstat example_host (Some example_file) True example_world =
     (0,
      Some (file_stat\<lparr>st_ino := fst (ZipfsHash example_host 2049
                                        (Some (ino_bytes example_host 1001)) example_world),
                       st_dev := 7\<rparr>),
      issue (Stat ''/zip/a.txt'') example_world) \<and>
   ZipfsFstat (example_host\<lparr>host_stat := (\<lambda>tr p. Inl ENOENT)\<rparr>) (Some example_file) True example_world =
     (-1, None, host_fail (Stat ''/zip/a.txt'') ENOENT example_world) \<and>
   ZipfsFstat example_host
     (Some (example_file\<lparr>info_data := (info_data example_file)\<lparr>hostpath := None\<rparr>\<rparr>)) True example_world =
     (-1, None, example_world\<lparr>w_errno := Some EBADF\<rparr>)"
  using fstat_falls_back_to_hostpath[where i=example_file and path="''/zip/a.txt''" and h=example_host
      and w=example_world and hst=file_stat and e=ENOENT
      and j="example_file\<lparr>info_data := (info_data example_file)\<lparr>hostpath := None\<rparr>\<rparr>"
      and wa=example_world]
    fstat_falls_back_to_hostpath[where i=example_file and path="''/zip/a.txt''"
      and h="example_host\<lparr>host_stat := (\<lambda>tr p. Inl ENOENT)\<rparr>"
      and w=example_world and hst=file_stat and e=ENOENT
      and j=example_file and wa=example_world]
  by (simp add: example_nodes_simps example_host_simps example_stat_def file_stat_def)

subsection \<open>Descriptor and stream of one payload\<close>

lemma failed_parent: "failed p rw = (r, p', out, w') \<Longrightarrow> p' = p"
  by (auto simp: failed_def)

lemma failed_null_parent: "failed_null p rw = (r, p', out, w') \<Longrightarrow> p' = p"
  by (auto simp: failed_null_def)

lemma free_and_fail_parent: "free_and_fail h p x oi w = (r, p', out, w') \<Longrightarrow> p' = p"
  by (auto simp: free_and_fail_def split: prod.splits option.splits)

lemma ZipfsFinddir_parent:
  "ZipfsFinddir h (Some p) name outp w = (r, p', out, w') \<Longrightarrow>
     p' = Some p \<or> p' = Some (VfsAcquireInfo p)"
  by (auto simp: ZipfsFinddir_def Let_def
      dest: failed_parent failed_null_parent free_and_fail_parent
      split: option.splits if_splits prod.splits bool.splits)

lemma ZipfsOpen_parent:
  "ZipfsOpen h (Some p) name flags omode outp w = (r, p', out, w') \<Longrightarrow>
     p' = Some p \<or> p' = Some (VfsAcquireInfo p)"
  by (auto simp: ZipfsOpen_def Let_def
      dest: failed_parent failed_null_parent free_and_fail_parent
      split: option.splits if_splits prod.splits bool.splits)

lemma VfsAcquireInfo_data: "info_data (VfsAcquireInfo i) = info_data i"
  by (simp add: VfsAcquireInfo_def)

lemma ZipfsClose_node:
  "ZipfsClose h (Some i) w = (r, i', w') \<Longrightarrow>
     i' = Some i \<or> i' = Some (i\<lparr>info_data := (info_data i)\<lparr>filefd := -1\<rparr>\<rparr>)"
  by (auto simp: ZipfsClose_def raise_defs split: if_splits prod.splits)

lemma ZipfsOpendir_node:
  "ZipfsOpendir h (Some i) outp w = (r, i', out, w') \<Longrightarrow>
     i' = Some i \<or>
     (S_ISDIR (mode (info_data i)) \<and>
      (\<exists>d. i' = Some (VfsAcquireInfo (i\<lparr>info_data := (info_data i)\<lparr>dirstream := Some d\<rparr>\<rparr>))))"
  by (auto simp: ZipfsOpendir_def raise_defs Let_def split: if_splits prod.splits option.splits)

lemma VfsFreeInfo_node:
  "VfsFreeInfo h i w = (r, Some i', w') \<Longrightarrow> info_data i' = info_data i"
  by (auto simp: VfsFreeInfo_def split: if_splits prod.splits)

lemma ZipfsClosedir_node:
  "ZipfsClosedir h (Some i) w = (r, Some i', w') \<Longrightarrow>
     i' = i \<or> info_data i' = (info_data i)\<lparr>dirstream := None\<rparr>"
  by (auto simp: ZipfsClosedir_def raise_defs dest!: VfsFreeInfo_node
      split: if_splits prod.splits option.splits)

lemma run_op_payload:
  assumes "run_op h op i w = Some (i', w')"
  shows "mode (info_data i') = mode (info_data i) \<and>
         hostpath (info_data i') = hostpath (info_data i) \<and>
         (filefd (info_data i') = filefd (info_data i) \<or> filefd (info_data i') = -1) \<and>
         (dirstream (info_data i') = dirstream (info_data i) \<or>
          dirstream (info_data i') = None \<or> S_ISDIR (mode (info_data i)))"
proof (cases op)
  case (OpFinddir nm)
  with assms show ?thesis
    by (auto simp: run_op_def VfsAcquireInfo_data dest!: ZipfsFinddir_parent
        split: prod.splits option.splits)
next
  case (OpOpen nm flags)
  with assms show ?thesis
    by (auto simp: run_op_def VfsAcquireInfo_data dest!: ZipfsOpen_parent
        split: prod.splits option.splits)
next
  case OpClose
  with assms show ?thesis
    by (auto simp: run_op_def dest!: ZipfsClose_node split: prod.splits)
next
  case OpOpendir
  with assms show ?thesis
    by (auto simp: run_op_def VfsAcquireInfo_data dest!: ZipfsOpendir_node split: prod.splits)
next
  case OpClosedir
  with assms show ?thesis
    by (auto simp: run_op_def dest!: ZipfsClosedir_node split: prod.splits option.splits)
qed (use assms in \<open>auto simp: run_op_def split: prod.splits\<close>)


lemma run_ops_payload:
  "run_ops h ops i w = Some (i', w') \<Longrightarrow>
     mode (info_data i') = mode (info_data i) \<and>
     hostpath (info_data i') = hostpath (info_data i) \<and>
     (filefd (info_data i) = -1 \<longrightarrow> filefd (info_data i') = -1) \<and>
     (dirstream (info_data i) = None \<or> S_ISDIR (mode (info_data i)) \<longrightarrow>
        dirstream (info_data i') = None \<or> S_ISDIR (mode (info_data i')))"
proof (induction ops arbitrary: i w)
  case Nil
  then show ?case by simp
next
  case (Cons op ops)
  from Cons.prems obtain j wj where
    step: "run_op h op i w = Some (j, wj)" and rest: "run_ops h ops j wj = Some (i', w')"
    by (auto split: option.splits)
  from run_op_payload[OF step] Cons.IH[OF rest] show ?case
    by auto
qed

text \<open>
  Claim C5, as amended. A payload made by a lookup has neither a descriptor nor a stream;
  one made by an open has its descriptor, whatever its mode, and no stream. Along every sequence of operations on a node the
  mode never changes, a stream is active only in a payload whose mode is a directory,
  and a payload without a descriptor never gets one. So a node that starts without a
  stream, and either without a descriptor (as after a lookup) or with a mode that is not
  a directory, never has a descriptor and a stream at once.
\<close>

theorem stream_only_on_directories:
  "(ZipfsFinddir h parent name outp wa = (Some 0, parent', Node out, wa') \<longrightarrow>
      filefd (info_data out) = -1 \<and> dirstream (info_data out) = None) \<and>
   (ZipfsOpen h oparent oname oflags omode ooutp wb = (Some 0, oparent', Node oout, wb') \<longrightarrow>
      dirstream (info_data oout) = None \<and> filefd (info_data oout) \<noteq> -1) \<and>
   (run_ops h ops i w = Some (i', w') \<longrightarrow>
      mode (info_data i') = mode (info_data i) \<and>
      (dirstream (info_data i) = None \<or> S_ISDIR (mode (info_data i)) \<longrightarrow>
         dirstream (info_data i') = None \<or> S_ISDIR (mode (info_data i'))) \<and>
      (filefd (info_data i) = -1 \<longrightarrow> filefd (info_data i') = -1) \<and>
      (dirstream (info_data i) = None \<and>
       (filefd (info_data i) = -1 \<or> \<not> S_ISDIR (mode (info_data i))) \<longrightarrow>
         filefd (info_data i') = -1 \<or> dirstream (info_data i') = None))"
proof (intro conjI)
  show "ZipfsFinddir h parent name outp wa = (Some 0, parent', Node out, wa') \<longrightarrow>
      filefd (info_data out) = -1 \<and> dirstream (info_data out) = None"
    using ZipfsFinddir_success[of h parent name outp wa parent' out wa'] by auto
  show "ZipfsOpen h oparent oname oflags omode ooutp wb = (Some 0, oparent', Node oout, wb') \<longrightarrow>
      dirstream (info_data oout) = None \<and> filefd (info_data oout) \<noteq> -1"
    using ZipfsOpen_success[of h oparent oname oflags omode ooutp wb oparent' oout wb'] by auto
  show "run_ops h ops i w = Some (i', w') \<longrightarrow>
      mode (info_data i') = mode (info_data i) \<and>
      (dirstream (info_data i) = None \<or> S_ISDIR (mode (info_data i)) \<longrightarrow>
         dirstream (info_data i') = None \<or> S_ISDIR (mode (info_data i'))) \<and>
      (filefd (info_data i) = -1 \<longrightarrow> filefd (info_data i') = -1) \<and>
      (dirstream (info_data i) = None \<and>
       (filefd (info_data i) = -1 \<or> \<not> S_ISDIR (mode (info_data i))) \<longrightarrow>
         filefd (info_data i') = -1 \<or> dirstream (info_data i') = None)"
    using run_ops_payload[of h ops i w i' w'] by auto
qed

lemma example_host_more_simps:
  "host_readdir example_host tr d = Inr None"
  "host_telldir example_host tr d = Inr 0"
  "host_access example_host tr path amode = Inr ()"
  "host_lseek example_host tr fd off whence = Inr off"
  by (simp_all add: example_host_def)

lemma example_sequence:
  "run_ops example_host [OpRead 2, OpOpendir, OpReaddir] example_root example_world =
     Some (example_root\<lparr>info_data := (info_data example_root)\<lparr>dirstream := Some 1\<rparr>,
                         info_refcount := 2\<rparr>,
           \<lparr>w_errno = Some EBADF, w_trace = [Opendir ''/zip'', Readdir 1], w_nalloc = 0\<rparr>)"
  by (simp add: run_op_def ZipfsRead_def ZipfsOpendir_def ZipfsReaddir_def read_failed_def raise_defs
      example_nodes_simps S_ISDIR_examples example_host_simps example_world_def
      sys_opendir_def sys_readdir_def issue_def VfsAcquireInfo_def example_host_more_simps
      example_root_def Let_def)

theorem stream_only_on_directories_witness:
  "(\<exists>p' out w'. ZipfsFinddir example_host (Some example_root) (Some ''a.txt'') True example_world =
        (Some 0, p', Node out, w') \<and>
      filefd (info_data out) = -1 \<and> dirstream (info_data out) = None) \<and>
   (\<exists>p' out w'. ZipfsOpen example_host (Some example_root) (Some ''a.txt'') O_RDONLY 0 True example_world =
        (Some 0, p', Node out, w') \<and>
      dirstream (info_data out) = None) \<and>
   (\<exists>i' w'. run_ops example_host [OpRead 2, OpOpendir, OpReaddir] example_root example_world = Some (i', w') \<and>
      mode (info_data i') = 0x41ED \<and> filefd (info_data i') = -1 \<and>
      (dirstream (info_data i') = None \<or> S_ISDIR (mode (info_data i'))))"
proof -
  obtain p' out w' where ev1:
    "ZipfsFinddir example_host (Some example_root) (Some ''a.txt'') True example_world = (Some 0, p', Node out, w')"
    by (simp add: example_lookup)
  obtain op' oout ow' where ev2:
    "ZipfsOpen example_host (Some example_root) (Some ''a.txt'') O_RDONLY 0 True example_world = (Some 0, op', Node oout, ow')"
    by (simp add: example_open)
  obtain i' sw' where ev3:
    "run_ops example_host [OpRead 2, OpOpendir, OpReaddir] example_root example_world = Some (i', sw')"
    by (rule that, rule example_sequence)
  from stream_only_on_directories[where h=example_host
      and parent="Some example_root" and name="Some ''a.txt''" and outp=True and wa=example_world
      and parent'=p' and out=out and wa'=w'
      and oparent="Some example_root" and oname="Some ''a.txt''" and oflags=O_RDONLY and omode=0
      and ooutp=True and wb=example_world and oparent'=op' and oout=oout and wb'=ow'
      and ops="[OpRead 2, OpOpendir, OpReaddir]" and i=example_root and w=example_world
      and i'=i' and w'=sw']
    ev1 ev2 ev3
  show ?thesis
    by (simp add: example_nodes_simps S_ISDIR_examples)
qed

text \<open>
  Claim C5 as stated fails for a directory that is opened: \<open>ZipfsOpen\<close> keeps the
  descriptor whatever the mode of the file, and \<open>ZipfsOpendir\<close> does not look at the
  descriptor. The node of \<^verbatim>\<open>/zip/sub\<close> then holds descriptor 4, on a payload that is
  not a regular file, and after \<open>ZipfsOpendir\<close> the stream 1 beside it.
\<close>

theorem opened_directory_holds_descriptor_and_stream:
  "(case ZipfsOpen example_host (Some example_root) (Some ''sub'') O_RDONLY 0 True example_world of
      (r, p', out, w') \<Rightarrow>
        r = Some 0 \<and>
        (case out of
           Node n \<Rightarrow>
             filefd (info_data n) = 4 \<and> \<not> S_ISREG (mode (info_data n)) \<and>
             (case run_ops example_host [OpOpendir] n w' of
                None \<Rightarrow> False
              | Some (n', w'') \<Rightarrow>
                  filefd (info_data n') = 4 \<and> dirstream (info_data n') = Some 1)
         | _ \<Rightarrow> False))"
  by (simp add: ZipfsOpen_def example_host_simps example_nodes_simps S_ISDIR_examples flag_simps
      ZipfsBuildHostPath_def malloc_def sys_open_def sys_fstat_def dir_stat_def issue_def
      ZipfsCreateInfo_def VfsCreateInfo_def ZipfsHash_Some example_world_def
      run_op_def ZipfsOpendir_def sys_opendir_def VfsAcquireInfo_def Let_def
      S_ISREG_def S_ISDIR_def S_IFMT_def S_IFREG_def S_IFDIR_def)

subsection \<open>Mounting\<close>

lemmas init_defs =
  ZipfsInit_def sys_stat_def malloc_def VfsCreateDevice_def VfsCreateRoot_def ZipfsCreateInfo_def
  VfsAcquireDevice_def cleananddie_def VfsFreeDevice_def VfsFreeRoot_def ZipfsFreeDevice_def
  ZipfsFreeInfo_mem_def free_def allocated_def init_start_def init_return_def init_crash_def
  issue_def host_fail_def raise_defs ZipfsHash_Some

lemma ZipfsInit_stat_fails:
  assumes "host_stat h (w_trace w) (init_src sa) = Inl e"
  shows "ZipfsInit h sa w = init_return (-1) init_start (host_fail (Stat (init_src sa)) e w)"
  using assms by (simp add: ZipfsInit_def sys_stat_def Let_def)

lemma ZipfsInit_not_a_directory:
  assumes "host_stat h (w_trace w) (init_src sa) = Inr st" and "\<not> S_ISDIR (st_mode st)"
  shows "ZipfsInit h sa w =
           init_return (-1) init_start ((issue (Stat (init_src sa)) w)\<lparr>w_errno := Some ENOTDIR\<rparr>)"
  using assms by (simp add: ZipfsInit_def sys_stat_def Let_def raise_defs)

lemma ZipfsInit_fail_0:
  assumes "host_stat h (w_trace w) (init_src sa) = Inr st" and "S_ISDIR (st_mode st)"
    and "\<not> alloc_ok h (w_nalloc w)"
  shows "init_ret (ZipfsInit h sa w) = Some (-1) \<and> i_live (init_heap (ZipfsInit h sa w)) = {}"
  using assms by (auto simp add: init_defs Let_def)

lemma ZipfsInit_fail_1:
  assumes "host_stat h (w_trace w) (init_src sa) = Inr st" and "S_ISDIR (st_mode st)"
    and "alloc_ok h (w_nalloc w)" and "\<not> alloc_ok h (w_nalloc w + 1)"
  shows "init_ret (ZipfsInit h sa w) = Some (-1) \<and> i_live (init_heap (ZipfsInit h sa w)) = {}"
  using assms by (auto simp add: init_defs Let_def)

lemma ZipfsInit_fail_2:
  assumes "host_stat h (w_trace w) (init_src sa) = Inr st" and "S_ISDIR (st_mode st)"
    and "alloc_ok h (w_nalloc w)" and "alloc_ok h (w_nalloc w + 1)"
    and "\<not> alloc_ok h (w_nalloc w + 2)"
  shows "init_ret (ZipfsInit h sa w) = Some (-1) \<and> i_live (init_heap (ZipfsInit h sa w)) = {}"
  using assms by (auto simp add: init_defs Let_def eval_nat_numeral)

lemma ZipfsInit_fail_3:
  assumes "host_stat h (w_trace w) (init_src sa) = Inr st" and "S_ISDIR (st_mode st)"
    and "alloc_ok h (w_nalloc w)" and "alloc_ok h (w_nalloc w + 1)"
    and "alloc_ok h (w_nalloc w + 2)" and "\<not> alloc_ok h (w_nalloc w + 3)"
  shows "init_ret (ZipfsInit h sa w) = Some (-1) \<and> i_live (init_heap (ZipfsInit h sa w)) = {}"
  using assms by (auto simp add: init_defs Let_def eval_nat_numeral)

lemma ZipfsInit_fail_4:
  assumes "host_stat h (w_trace w) (init_src sa) = Inr st" and "S_ISDIR (st_mode st)"
    and "alloc_ok h (w_nalloc w)" and "alloc_ok h (w_nalloc w + 1)"
    and "alloc_ok h (w_nalloc w + 2)" and "alloc_ok h (w_nalloc w + 3)"
    and "\<not> alloc_ok h (w_nalloc w + 4)"
  shows "init_ret (ZipfsInit h sa w) = None \<and>
         init_fault (ZipfsInit h sa w) = Some (if heap_garbage_null h then NullDeref else WildPointer) \<and>
         i_live (init_heap (ZipfsInit h sa w)) = {MountObj}"
  using assms by (auto simp add: init_defs Let_def eval_nat_numeral)

lemma ZipfsInit_fail_5:
  assumes "host_stat h (w_trace w) (init_src sa) = Inr st" and "S_ISDIR (st_mode st)"
    and "alloc_ok h (w_nalloc w)" and "alloc_ok h (w_nalloc w + 1)"
    and "alloc_ok h (w_nalloc w + 2)" and "alloc_ok h (w_nalloc w + 3)"
    and "alloc_ok h (w_nalloc w + 4)" and "\<not> alloc_ok h (w_nalloc w + 5)"
  shows "init_ret (ZipfsInit h sa w) = Some (-1) \<and> i_live (init_heap (ZipfsInit h sa w)) = {}"
  using assms by (auto simp add: init_defs Let_def eval_nat_numeral)

lemma ZipfsInit_fail_6:
  assumes "host_stat h (w_trace w) (init_src sa) = Inr st" and "S_ISDIR (st_mode st)"
    and "alloc_ok h (w_nalloc w)" and "alloc_ok h (w_nalloc w + 1)"
    and "alloc_ok h (w_nalloc w + 2)" and "alloc_ok h (w_nalloc w + 3)"
    and "alloc_ok h (w_nalloc w + 4)" and "alloc_ok h (w_nalloc w + 5)"
    and "\<not> alloc_ok h (w_nalloc w + 6)"
  shows "init_ret (ZipfsInit h sa w) = Some (-1) \<and>
         i_live (init_heap (ZipfsInit h sa w)) = {PayloadObj}"
  using assms by (auto simp add: init_defs Let_def eval_nat_numeral)

lemma ZipfsInit_all_allocated:
  assumes "host_stat h (w_trace w) (init_src sa) = Inr st" and "S_ISDIR (st_mode st)"
    and "alloc_ok h (w_nalloc w)" and "alloc_ok h (w_nalloc w + 1)"
    and "alloc_ok h (w_nalloc w + 2)" and "alloc_ok h (w_nalloc w + 3)"
    and "alloc_ok h (w_nalloc w + 4)" and "alloc_ok h (w_nalloc w + 5)"
    and "alloc_ok h (w_nalloc w + 6)"
  shows "init_ret (ZipfsInit h sa w) = Some 0 \<and>
         init_device (ZipfsInit h sa w) =
           Some \<lparr>source = init_src sa,
                 sourcelen = (if 0 < length (init_src sa) \<and>
                                 init_src sa ! (length (init_src sa) - 1) = CHR ''/''
                              then length (init_src sa) - 1 else length (init_src sa))\<rparr> \<and>
         init_root (ZipfsInit h sa w) =
           Some \<lparr>info_data = \<lparr>mode = st_mode st, filefd = -1, dirstream = None,
                               hostpath = Some (init_src sa)\<rparr>,
                 info_name = None, info_namelen = 0, info_dev = 0,
                 info_ino = fst (ZipfsHash h (st_dev st) (Some (ino_bytes h (st_ino st))) w),
                 info_mode = st_mode st, info_refcount = 1\<rparr>"
  using assms by (auto simp add: init_defs Let_def eval_nat_numeral)


text \<open>
  Claim C6. An unset or empty source is replaced by the fixed path \<^verbatim>\<open>/zip\<close>, which is
  then the path \<open>ZipfsInit\<close> stats. Where the host's stat of the source fails,
  \<open>ZipfsInit\<close> returns -1 with the host's error in \<^verbatim>\<open>errno\<close>; where the source exists
  and is not a directory, it returns -1 with \<^verbatim>\<open>ENOTDIR\<close>. Neither case allocates
  anything or issues another host call.
\<close>

theorem ZipfsInit_validates_source:
  "init_src None = ''/zip'' \<and> init_src (Some []) = ''/zip'' \<and>
   ZipfsInit h None w = ZipfsInit h (Some ''/zip'') w \<and>
   ZipfsInit h (Some []) w = ZipfsInit h (Some ''/zip'') w \<and>
   (host_stat h (w_trace w) (init_src sa) = Inl e \<longrightarrow>
      init_ret (ZipfsInit h sa w) = Some (-1) \<and>
      w_errno (init_world (ZipfsInit h sa w)) = Some e \<and>
      w_trace (init_world (ZipfsInit h sa w)) = w_trace w @ [Stat (init_src sa)] \<and>
      w_nalloc (init_world (ZipfsInit h sa w)) = w_nalloc w \<and>
      i_live (init_heap (ZipfsInit h sa w)) = {}) \<and>
   (host_stat h (w_trace w) (init_src sa) = Inr st \<and> \<not> S_ISDIR (st_mode st) \<longrightarrow>
      init_ret (ZipfsInit h sa w) = Some (-1) \<and>
      w_errno (init_world (ZipfsInit h sa w)) = Some ENOTDIR \<and>
      w_trace (init_world (ZipfsInit h sa w)) = w_trace w @ [Stat (init_src sa)] \<and>
      w_nalloc (init_world (ZipfsInit h sa w)) = w_nalloc w \<and>
      i_live (init_heap (ZipfsInit h sa w)) = {})"
proof (intro conjI impI)
  show "init_src None = ''/zip''" and "init_src (Some []) = ''/zip''"
    by (simp_all add: init_src_def)
  show "ZipfsInit h None w = ZipfsInit h (Some ''/zip'') w"
    and "ZipfsInit h (Some []) w = ZipfsInit h (Some ''/zip'') w"
    by (simp_all add: ZipfsInit_def init_src_def)
next
  assume "host_stat h (w_trace w) (init_src sa) = Inl e"
  from ZipfsInit_stat_fails[OF this]
  show "init_ret (ZipfsInit h sa w) = Some (-1)"
    and "w_errno (init_world (ZipfsInit h sa w)) = Some e"
    and "w_trace (init_world (ZipfsInit h sa w)) = w_trace w @ [Stat (init_src sa)]"
    and "w_nalloc (init_world (ZipfsInit h sa w)) = w_nalloc w"
    and "i_live (init_heap (ZipfsInit h sa w)) = {}"
    by (simp_all add: init_return_def init_start_def host_fail_def issue_def)
next
  assume "host_stat h (w_trace w) (init_src sa) = Inr st \<and> \<not> S_ISDIR (st_mode st)"
  then have "ZipfsInit h sa w =
     init_return (-1) init_start ((issue (Stat (init_src sa)) w)\<lparr>w_errno := Some ENOTDIR\<rparr>)"
    using ZipfsInit_not_a_directory by blast
  then show "init_ret (ZipfsInit h sa w) = Some (-1)"
    and "w_errno (init_world (ZipfsInit h sa w)) = Some ENOTDIR"
    and "w_trace (init_world (ZipfsInit h sa w)) = w_trace w @ [Stat (init_src sa)]"
    and "w_nalloc (init_world (ZipfsInit h sa w)) = w_nalloc w"
    and "i_live (init_heap (ZipfsInit h sa w)) = {}"
    by (simp_all add: init_return_def init_start_def issue_def)
qed

theorem ZipfsInit_validates_source_witness:
  "init_ret (ZipfsInit example_host (Some ''/nope'') example_world) = Some (-1) \<and>
   w_errno (init_world (ZipfsInit example_host (Some ''/nope'') example_world)) = Some ENOENT \<and>
   w_trace (init_world (ZipfsInit example_host (Some ''/nope'') example_world)) = [Stat ''/nope''] \<and>
   init_ret (ZipfsInit example_host (Some ''/zip/a.txt'') example_world) = Some (-1) \<and>
   w_errno (init_world (ZipfsInit example_host (Some ''/zip/a.txt'') example_world)) = Some ENOTDIR"
  using ZipfsInit_validates_source[where h=example_host and w=example_world and sa="Some ''/nope''"
      and e=ENOENT and st=file_stat]
    ZipfsInit_validates_source[where h=example_host and w=example_world and sa="Some ''/zip/a.txt''"
      and e=ENOENT and st=file_stat]
  by (simp add: init_src_def example_host_simps example_stat_def example_world_def file_stat_def
      S_ISDIR_examples)


text \<open>
  Claim C7 does not hold of the code. With the source a directory, let allocation \<open>k\<close>
  of \<open>ZipfsInit\<close> (counted from 0) be the first that fails. Where that is the copy of
  the root's host path (\<open>k = 6\<close>), \<^verbatim>\<open>cleananddie\<close> releases the root node, whose
  \<^verbatim>\<open>data\<close> is not yet set, and \<open>ZipfsInit\<close> returns -1 with the payload still allocated.
  Where it is the root node (\<open>k = 4\<close>), \<^verbatim>\<open>cleananddie\<close> reads \<^verbatim>\<open>(*mount)->root\<close>, which
  nothing has set, and dereferences the null \<^verbatim>\<open>zipfsrootinfo\<close> or hands a wild pointer
  to \<^verbatim>\<open>VfsFreeInfo\<close>; the mount record is still allocated. On the other five failures
  everything allocated is released.
\<close>

theorem ZipfsInit_failure_paths:
  assumes "host_stat h (w_trace w) (init_src sa) = Inr st" and "S_ISDIR (st_mode st)"
    and "k \<le> 6" and "\<forall>j<k. alloc_ok h (w_nalloc w + j)" and "\<not> alloc_ok h (w_nalloc w + k)"
  shows "(k = 6 \<longrightarrow>
            init_ret (ZipfsInit h sa w) = Some (-1) \<and>
            i_live (init_heap (ZipfsInit h sa w)) = {PayloadObj}) \<and>
         (k = 4 \<longrightarrow>
            init_ret (ZipfsInit h sa w) = None \<and>
            init_fault (ZipfsInit h sa w) =
              Some (if heap_garbage_null h then NullDeref else WildPointer) \<and>
            i_live (init_heap (ZipfsInit h sa w)) = {MountObj}) \<and>
         (k \<noteq> 4 \<and> k \<noteq> 6 \<longrightarrow>
            init_ret (ZipfsInit h sa w) = Some (-1) \<and>
            i_live (init_heap (ZipfsInit h sa w)) = {})"
proof -
  note stat = assms(1) and dir = assms(2)
  have ok: "alloc_ok h (w_nalloc w + j)" if "j < k" for j
    using assms(4) that by blast
  from assms(3) consider "k = 0" | "k = 1" | "k = 2" | "k = 3" | "k = 4" | "k = 5" | "k = 6"
    by linarith
  then show ?thesis
  proof cases
    case 1
    with assms(5) ZipfsInit_fail_0[OF stat dir] show ?thesis by simp
  next
    case 2
    with assms(5) ok[of 0] ZipfsInit_fail_1[OF stat dir] show ?thesis by simp
  next
    case 3
    with assms(5) ok[of 0] ok[of 1] ZipfsInit_fail_2[OF stat dir] show ?thesis by simp
  next
    case 4
    with assms(5) ok[of 0] ok[of 1] ok[of 2] ZipfsInit_fail_3[OF stat dir] show ?thesis by simp
  next
    case 5
    with assms(5) ok[of 0] ok[of 1] ok[of 2] ok[of 3] ZipfsInit_fail_4[OF stat dir]
    show ?thesis by simp
  next
    case 6
    with assms(5) ok[of 0] ok[of 1] ok[of 2] ok[of 3] ok[of 4] ZipfsInit_fail_5[OF stat dir]
    show ?thesis by simp
  next
    case 7
    with assms(5) ok[of 0] ok[of 1] ok[of 2] ok[of 3] ok[of 4] ok[of 5]
      ZipfsInit_fail_6[OF stat dir]
    show ?thesis by simp
  qed
qed

theorem ZipfsInit_failure_paths_witness:
  "init_ret (ZipfsInit (example_host\<lparr>alloc_ok := (\<lambda>n. n \<noteq> 6)\<rparr>) (Some ''/zip'') example_world) =
     Some (-1) \<and>
   i_live (init_heap (ZipfsInit (example_host\<lparr>alloc_ok := (\<lambda>n. n \<noteq> 6)\<rparr>) (Some ''/zip'')
     example_world)) = {PayloadObj} \<and>
   init_ret (ZipfsInit (example_host\<lparr>alloc_ok := (\<lambda>n. n \<noteq> 4)\<rparr>) (Some ''/zip'') example_world) =
     None \<and>
   init_fault (ZipfsInit (example_host\<lparr>alloc_ok := (\<lambda>n. n \<noteq> 4)\<rparr>) (Some ''/zip'')
     example_world) = Some NullDeref \<and>
   init_ret (ZipfsInit (example_host\<lparr>alloc_ok := (\<lambda>n. n \<noteq> 3)\<rparr>) (Some ''/zip'') example_world) =
     Some (-1) \<and>
   i_live (init_heap (ZipfsInit (example_host\<lparr>alloc_ok := (\<lambda>n. n \<noteq> 3)\<rparr>) (Some ''/zip'')
     example_world)) = {}"
  using ZipfsInit_failure_paths[where h="example_host\<lparr>alloc_ok := (\<lambda>n. n \<noteq> 6)\<rparr>"
      and w=example_world and sa="Some ''/zip''" and st=dir_stat and k=6]
    ZipfsInit_failure_paths[where h="example_host\<lparr>alloc_ok := (\<lambda>n. n \<noteq> 4)\<rparr>"
      and w=example_world and sa="Some ''/zip''" and st=dir_stat and k=4]
    ZipfsInit_failure_paths[where h="example_host\<lparr>alloc_ok := (\<lambda>n. n \<noteq> 3)\<rparr>"
      and w=example_world and sa="Some ''/zip''" and st=dir_stat and k=3]
  by (simp add: init_src_def example_host_simps example_stat_def example_world_def dir_stat_def
      S_ISDIR_examples)

text \<open>
  Claim C8, as amended. After a successful \<open>ZipfsInit\<close> the device record holds the
  source path as it was given (the default for an unset or empty one), together with a
  length that leaves out one trailing slash, if the path ends in one: the first
  \<open>sourcelen\<close> characters of \<open>source\<close> are the path without that slash. The root payload's
  host path is the source path as it was given, a trailing slash included; its mode is
  the host's, it has no descriptor and no stream, and the root's inode is \<open>ZipfsHash\<close> of
  the host's device and inode.
\<close>

theorem ZipfsInit_success:
  assumes "init_ret (ZipfsInit h sa w) = Some 0"
  shows "\<exists>st dev root.
           host_stat h (w_trace w) (init_src sa) = Inr st \<and> S_ISDIR (st_mode st) \<and>
           init_device (ZipfsInit h sa w) = Some dev \<and>
           source dev = init_src sa \<and>
           sourcelen dev =
             (if init_src sa \<noteq> [] \<and> last (init_src sa) = CHR ''/''
              then length (init_src sa) - 1 else length (init_src sa)) \<and>
           take (sourcelen dev) (source dev) =
             (if init_src sa \<noteq> [] \<and> last (init_src sa) = CHR ''/''
              then butlast (init_src sa) else init_src sa) \<and>
           init_root (ZipfsInit h sa w) = Some root \<and>
           hostpath (info_data root) = Some (init_src sa) \<and>
           mode (info_data root) = st_mode st \<and>
           filefd (info_data root) = -1 \<and>
           dirstream (info_data root) = None \<and>
           info_mode root = st_mode st \<and>
           info_ino root = fst (ZipfsHash h (st_dev st) (Some (ino_bytes h (st_ino st))) w)"
proof -
  obtain st where stat: "host_stat h (w_trace w) (init_src sa) = Inr st"
    using assms ZipfsInit_stat_fails[of h w sa]
    by (cases "host_stat h (w_trace w) (init_src sa)") (auto simp: init_return_def)
  have dir: "S_ISDIR (st_mode st)"
  proof (rule ccontr)
    assume "\<not> S_ISDIR (st_mode st)"
    from ZipfsInit_not_a_directory[OF stat this] assms show False
      by (simp add: init_return_def)
  qed
  have a0: "alloc_ok h (w_nalloc w)"
    using ZipfsInit_fail_0[OF stat dir] assms by auto
  have a1: "alloc_ok h (w_nalloc w + 1)"
    using ZipfsInit_fail_1[OF stat dir a0] assms by auto
  have a2: "alloc_ok h (w_nalloc w + 2)"
    using ZipfsInit_fail_2[OF stat dir a0 a1] assms by auto
  have a3: "alloc_ok h (w_nalloc w + 3)"
    using ZipfsInit_fail_3[OF stat dir a0 a1 a2] assms by auto
  have a4: "alloc_ok h (w_nalloc w + 4)"
    using ZipfsInit_fail_4[OF stat dir a0 a1 a2 a3] assms by auto
  have a5: "alloc_ok h (w_nalloc w + 5)"
    using ZipfsInit_fail_5[OF stat dir a0 a1 a2 a3 a4] assms by auto
  have a6: "alloc_ok h (w_nalloc w + 6)"
    using ZipfsInit_fail_6[OF stat dir a0 a1 a2 a3 a4 a5] assms by auto
  have tk: "take (if s \<noteq> [] \<and> last s = CHR ''/'' then length s - 1 else length s) s =
            (if s \<noteq> [] \<and> last s = CHR ''/'' then butlast s else s)" for s :: string
    by (simp add: butlast_conv_take)
  note raw = ZipfsInit_all_allocated[OF stat dir a0 a1 a2 a3 a4 a5 a6, simplified]
  have dev: "init_device (ZipfsInit h sa w) =
           Some \<lparr>source = init_src sa,
                 sourcelen = (if init_src sa \<noteq> [] \<and> last (init_src sa) = CHR ''/''
                              then length (init_src sa) - 1 else length (init_src sa))\<rparr>"
    using raw by (auto simp: last_conv_nth)
  have root: "init_root (ZipfsInit h sa w) =
           Some \<lparr>info_data = \<lparr>mode = st_mode st, filefd = -1, dirstream = None,
                               hostpath = Some (init_src sa)\<rparr>,
                 info_name = None, info_namelen = 0, info_dev = 0,
                 info_ino = fst (ZipfsHash h (st_dev st) (Some (ino_bytes h (st_ino st))) w),
                 info_mode = st_mode st, info_refcount = 1\<rparr>"
    using raw by simp
  show ?thesis
    using stat dir dev root tk[of "init_src sa"] by simp
qed

theorem ZipfsInit_success_witness:
  "init_ret (ZipfsInit example_host (Some ''/zip/'') example_world) = Some 0 \<and>
   (\<exists>dev root.
      init_device (ZipfsInit example_host (Some ''/zip/'') example_world) = Some dev \<and>
      source dev = ''/zip/'' \<and> sourcelen dev = 4 \<and>
      take (sourcelen dev) (source dev) = ''/zip'' \<and>
      init_root (ZipfsInit example_host (Some ''/zip/'') example_world) = Some root \<and>
      hostpath (info_data root) = Some ''/zip/'' \<and>
      filefd (info_data root) = -1 \<and> dirstream (info_data root) = None)"
proof -
  have ok: "init_ret (ZipfsInit example_host (Some ''/zip/'') example_world) = Some 0"
    using ZipfsInit_all_allocated[where h=example_host and w=example_world and sa="Some ''/zip/''"
        and st=dir_stat]
    by (simp add: init_src_def example_host_simps example_stat_def dir_stat_def S_ISDIR_examples)
  from ZipfsInit_success[OF ok] ok show ?thesis
    by (auto simp: init_src_def)
qed

text \<open>
  Claim C8 as stated fails for a source that ends in a slash: mounted on \<^verbatim>\<open>/zip/\<close>, the
  root payload's host path is \<^verbatim>\<open>/zip/\<close>, not the stripped \<^verbatim>\<open>/zip\<close>, and the device's
  copy of the path keeps the slash too; only the length leaves it out.
\<close>

theorem root_hostpath_keeps_trailing_slash:
  "init_ret (ZipfsInit example_host (Some ''/zip/'') example_world) = Some 0 \<and>
   map_option (\<lambda>root. hostpath (info_data root))
     (init_root (ZipfsInit example_host (Some ''/zip/'') example_world)) = Some (Some ''/zip/'') \<and>
   init_device (ZipfsInit example_host (Some ''/zip/'') example_world) =
     Some \<lparr>source = ''/zip/'', sourcelen = 4\<rparr> \<and>
   ''/zip/'' \<noteq> ''/zip''"
  using ZipfsInit_all_allocated[where h=example_host and w=example_world and sa="Some ''/zip/''"
      and st=dir_stat]
  by (simp add: init_src_def example_host_simps example_stat_def dir_stat_def S_ISDIR_examples)

end
